theory Spec2Isabelle
  imports Complex_Main "HOL-Library.List_Lexorder"
begin

section \<open>Data model of \<open>st_show.py\<close>\<close>

text \<open>
  The dashboard keeps one pandas DataFrame. Its seven columns are named here after the
  quantities they hold (the source names them in Chinese):
  \<^item> \<open>EntityName\<close>: the stock name column, \<open>Period\<close>: the reporting period column;
  \<^item> \<open>NetProfitMarginRaw\<close>, \<open>ReturnOnAssetsRaw\<close>: the two percentage columns as loaded;
  \<^item> \<open>AssetTurnover\<close>: the turnover ratio column;
  \<^item> \<open>NetProfitMargin\<close>, \<open>ReturnOnAssets\<close>: the two derived numeric columns that
    \<open>preprocess_data\<close> adds.

  A Python \<open>str\<close> is a sequence of code points, so user text (entity names, periods)
  is a list of code points: \<open>len\<close> is \<open>length\<close> and \<open>s[:k]\<close> is \<open>take k s\<close>.
  Text that the program builds from ASCII pieces only (colour strings, formatted
  numbers) is an Isabelle \<open>string\<close>.

  A float64 value is either NaN (pandas' missing value), modelled as \<open>None\<close>, or a
  finite number, modelled as the rational it denotes. Every arithmetic operation on
  floats rounds its exact result to the nearest float64, see \<open>fl\<close> below. Infinities,
  overflow and underflow of the hardware format, and the sign of zero, are outside this
  model.
\<close>

type_synonym ustr = "nat list"

definition ascii :: "string \<Rightarrow> ustr" where
  "ascii s = map of_char s"

datatype column =
  EntityName | Period | NetProfitMarginRaw | ReturnOnAssetsRaw | AssetTurnover
  | NetProfitMargin | ReturnOnAssets

text \<open>A spreadsheet cell as loaded: a number, a text, or a missing value.\<close>

datatype cell = Num rat | Str ustr | NaN

record row =
  entity_name :: ustr
  period :: cell
  net_profit_margin_raw :: cell
  return_on_assets_raw :: cell
  asset_turnover :: cell
  net_profit_margin :: "rat option"
  return_on_assets :: "rat option"

text \<open>
  \<open>columns\<close> is \<open>df.columns\<close>. The field of a row for a column that is not in
  \<open>columns\<close> carries no information and is never read.
\<close>

record dataframe =
  columns :: "column list"
  rows :: "row list"

datatype error = KeyError column | IndexError | ValueError

section \<open>float64 arithmetic\<close>

text \<open>
  The binary exponent of a non-zero number: the \<open>e\<close> with \<open>2 ^ e \<le> |x| < 2 ^ (e + 1)\<close>,
  found by halving a number that is at least 2 and doubling a number below 1.
\<close>

function up :: "rat \<Rightarrow> int" where
  "up x = (if 2 \<le> x then up (x / 2) + 1 else 0)"
  by pat_completeness auto
termination
proof (relation "measure (\<lambda>x. nat \<lfloor>x\<rfloor>)")
  show "wf (measure (\<lambda>x. nat \<lfloor>x\<rfloor>))"
    by simp
next
  fix x :: rat
  assume "2 \<le> x"
  then have one: "(1::rat) \<le> of_int \<lfloor>x\<rfloor>"
    by (simp add: le_floor_iff)
  have "x - 1 < of_int \<lfloor>x\<rfloor>"
    by linarith
  with one have "x / 2 < of_int \<lfloor>x\<rfloor>"
    by linarith
  then have "\<lfloor>x / 2\<rfloor> < \<lfloor>x\<rfloor>"
    by (simp add: floor_less_iff)
  moreover from one have "0 < \<lfloor>x\<rfloor>"
    by simp
  ultimately show "(x / 2, x) \<in> measure (\<lambda>x. nat \<lfloor>x\<rfloor>)"
    by simp
qed

function down :: "rat \<Rightarrow> int" where
  "down x = (if 0 < x \<and> x < 1 then down (x * 2) - 1 else 0)"
  by pat_completeness auto
termination
proof (relation "measure (\<lambda>x. nat \<lfloor>1 / x\<rfloor>)")
  show "wf (measure (\<lambda>x. nat \<lfloor>1 / x\<rfloor>))"
    by simp
next
  fix x :: rat
  assume x: "0 < x \<and> x < 1"
  define y where "y = 1 / x"
  from x have "1 \<le> y"
    by (simp add: y_def)
  then have one: "(1::rat) \<le> of_int \<lfloor>y\<rfloor>"
    by (simp add: le_floor_iff)
  have "y - 1 < of_int \<lfloor>y\<rfloor>"
    by linarith
  with one have "y / 2 < of_int \<lfloor>y\<rfloor>"
    by linarith
  then have "\<lfloor>y / 2\<rfloor> < \<lfloor>y\<rfloor>"
    by (simp add: floor_less_iff)
  moreover from one have "0 < \<lfloor>y\<rfloor>"
    by simp
  ultimately show "(x * 2, x) \<in> measure (\<lambda>x. nat \<lfloor>1 / x\<rfloor>)"
    by (simp add: y_def)
qed

declare up.simps [simp del] down.simps [simp del]

definition exponent :: "rat \<Rightarrow> int" where
  "exponent x = (if 1 \<le> \<bar>x\<bar> then up \<bar>x\<bar> else down \<bar>x\<bar>)"

text \<open>Rounding to the nearest integer, a tie going to the even neighbour.\<close>

definition round_half_even :: "rat \<Rightarrow> int" where
  "round_half_even q =
     (let f = \<lfloor>q\<rfloor>; d = q - of_int f
      in if d < 1 / 2 then f
         else if 1 / 2 < d then f + 1
         else if even f then f else f + 1)"

text \<open>
  A float64 has a significand of 53 bits: a positive number with exponent \<open>e\<close> is
  rounded to the nearest multiple of \<open>2 ^ (e - 52)\<close>, ties to even (the default
  rounding mode). \<open>fl x\<close> is the float64 nearest to \<open>x\<close>; the result of \<open>a + b\<close>,
  \<open>a - b\<close>, \<open>a * b\<close>, \<open>a / b\<close> on floats is \<open>fl\<close> of the exact result. The exponent is
  not bounded here, so magnitudes above about \<open>1.8e308\<close> or below about \<open>2.2e-308\<close>
  (where the hardware gives an infinity or a subnormal number) are outside this model.
\<close>

definition round53 :: "rat \<Rightarrow> rat" where
  "round53 x = (let q = 2 powi (exponent x - 52) in of_int (round_half_even (x / q)) * q)"

definition fl :: "rat \<Rightarrow> rat" where
  "fl x = (if x = 0 then 0 else if 0 < x then round53 x else - round53 (- x))"

section \<open>\<open>preprocess_data\<close>\<close>

text \<open>
  \<open>pd.to_numeric(_, errors='coerce')\<close> on one cell. How pandas reads a text as a number
  is library code: it is the parameter \<open>parse\<close>, which gives \<open>None\<close> for a text that
  does not parse.
\<close>

definition to_numeric :: "(ustr \<Rightarrow> rat option) \<Rightarrow> cell \<Rightarrow> rat option" where
  "to_numeric parse c = (case c of Num q \<Rightarrow> Some q | Str s \<Rightarrow> parse s | NaN \<Rightarrow> None)"

definition float_cell :: "rat option \<Rightarrow> cell" where
  "float_cell v = (case v of Some q \<Rightarrow> Num q | None \<Rightarrow> NaN)"

text \<open>
  \<open>astype(str)\<close> on one cell. A text stays as it is; how a number prints is library
  code, the parameter \<open>num_str\<close>; a missing value prints as \<open>nan\<close>.
\<close>

definition astype_str :: "(rat \<Rightarrow> ustr) \<Rightarrow> cell \<Rightarrow> ustr" where
  "astype_str num_str c = (case c of Str s \<Rightarrow> s | Num q \<Rightarrow> num_str q | NaN \<Rightarrow> ascii ''nan'')"

text \<open>\<open>df[c] = ...\<close>: the column is appended when new, and every row gets its value.\<close>

definition assign :: "column \<Rightarrow> (row \<Rightarrow> row) \<Rightarrow> dataframe \<Rightarrow> dataframe" where
  "assign c f df =
     df\<lparr>columns := (if c \<in> set (columns df) then columns df else columns df @ [c]),
        rows := map f (rows df)\<rparr>"

definition preprocess_data ::
  "(ustr \<Rightarrow> rat option) \<Rightarrow> (rat \<Rightarrow> ustr) \<Rightarrow> dataframe \<Rightarrow> dataframe" where
  "preprocess_data parse num_str df =
     (let df1 = (if NetProfitMarginRaw \<in> set (columns df)
                 then assign NetProfitMargin
                        (\<lambda>r. r\<lparr>net_profit_margin :=
                                 map_option (\<lambda>q. fl (q / 100)) (to_numeric parse (net_profit_margin_raw r))\<rparr>) df
                 else df);
          df2 = (if ReturnOnAssetsRaw \<in> set (columns df1)
                 then assign ReturnOnAssets
                        (\<lambda>r. r\<lparr>return_on_assets :=
                                 map_option (\<lambda>q. fl (q / 100)) (to_numeric parse (return_on_assets_raw r))\<rparr>) df1
                 else df1);
          df3 = (if AssetTurnover \<in> set (columns df2)
                 then assign AssetTurnover
                        (\<lambda>r. r\<lparr>asset_turnover := float_cell (to_numeric parse (asset_turnover r))\<rparr>) df2
                 else df2);
          df4 = (if Period \<in> set (columns df3)
                 then assign Period (\<lambda>r. r\<lparr>period := Str (astype_str num_str (period r))\<rparr>) df3
                 else df3)
      in df4)"

section \<open>\<open>create_bubble_chart\<close>\<close>

text \<open>The trace handed to the plotting library: one entry per point in each list.\<close>

record chart =
  x_values :: "cell list"
  y_values :: "rat option list"
  bubble_sizes :: "rat option list"
  colors :: "string list"
  edge_colors :: "string list"
  text_labels :: "ustr list"
  text_sizes :: "nat list"
  customdata :: "ustr list"
  title_text :: ustr

subsection \<open>Printing integers\<close>

fun str_nat :: "nat \<Rightarrow> string" where
  "str_nat n = (if n < 10 then [''0123456789'' ! n]
                else str_nat (n div 10) @ [''0123456789'' ! (n mod 10)])"

declare str_nat.simps [simp del]

definition str_int :: "int \<Rightarrow> string" where
  "str_int i = (if i < 0 then ''-'' @ str_nat (nat (- i)) else str_nat (nat i))"

subsection \<open>Colours\<close>

text \<open>Python's \<open>int(_)\<close> on a float: truncation toward zero.\<close>

definition py_int :: "rat \<Rightarrow> int" where
  "py_int q = (if 0 \<le> q then \<lfloor>q\<rfloor> else \<lceil>q\<rceil>)"

text \<open>\<open>Series.max()\<close> and \<open>Series.min()\<close> skip NaN and give NaN when nothing is left.\<close>

definition present :: "rat option list \<Rightarrow> rat list" where
  "present col = [v. Some v \<leftarrow> col]"

definition series_max :: "rat option list \<Rightarrow> rat option" where
  "series_max col = (case present col of [] \<Rightarrow> None | v # vs \<Rightarrow> Some (fold max vs v))"

definition series_min :: "rat option list \<Rightarrow> rat option" where
  "series_min col = (case present col of [] \<Rightarrow> None | v # vs \<Rightarrow> Some (fold min vs v))"

text \<open>
  Lines 134 to 138. The subtraction and the division of line 134 each round; in lines
  136 to 138 the differences \<open>255 - 0\<close>, \<open>60 - 102\<close>, \<open>60 - 255\<close> are integer
  arithmetic, the product with \<open>norm\<close> and the sum are float operations.
\<close>

definition norm_of :: "rat \<Rightarrow> rat \<Rightarrow> rat \<Rightarrow> rat" where
  "norm_of min_val val_range val = fl (fl (val - min_val) / val_range)"

definition red_of :: "rat \<Rightarrow> int" where
  "red_of nrm = py_int (fl (0 + fl ((255 - 0) * nrm)))"

definition green_of :: "rat \<Rightarrow> int" where
  "green_of nrm = py_int (fl (102 + fl ((60 - 102) * nrm)))"

definition blue_of :: "rat \<Rightarrow> int" where
  "blue_of nrm = py_int (fl (255 + fl ((60 - 255) * nrm)))"

text \<open>The two f-strings of the loop; \<open>{a:.2f}\<close> with \<open>a = 0.7\<close> prints \<open>0.70\<close>.\<close>

definition fill_rgba :: "int \<Rightarrow> int \<Rightarrow> int \<Rightarrow> string" where
  "fill_rgba r g b =
     ''rgba('' @ str_int r @ '','' @ str_int g @ '','' @ str_int b @ '','' @ ''0.70'' @ '')''"

definition edge_rgba :: "int \<Rightarrow> int \<Rightarrow> int \<Rightarrow> string" where
  "edge_rgba r g b =
     ''rgba('' @ str_int (max (r - 40) 0) @ '','' @ str_int (max (g - 40) 0) @ '',''
       @ str_int (max (b - 40) 0) @ '',0.95)''"

definition point_color :: "rat \<Rightarrow> rat \<Rightarrow> rat option \<Rightarrow> string" where
  "point_color min_val val_range val =
     (case val of
        None \<Rightarrow> ''rgba(200,200,200,0.6)''
      | Some v \<Rightarrow> (let nrm = norm_of min_val val_range v
                   in fill_rgba (red_of nrm) (green_of nrm) (blue_of nrm)))"

definition point_edge_color :: "rat \<Rightarrow> rat \<Rightarrow> rat option \<Rightarrow> string" where
  "point_edge_color min_val val_range val =
     (case val of
        None \<Rightarrow> ''rgba(120,120,120,1)''
      | Some v \<Rightarrow> (let nrm = norm_of min_val val_range v
                   in edge_rgba (red_of nrm) (green_of nrm) (blue_of nrm)))"

text \<open>
  Lines 126 to 128. \<open>max_val\<close> and \<open>min_val\<close> are NaN only when the column holds no
  number at all; then the loop takes its NaN branch for every value, whatever the
  range is, so the range is reported as \<open>None\<close> and the loop below does exactly that.
  The range is a float subtraction; it is positive when the two differ.
\<close>

definition color_scale :: "rat option list \<Rightarrow> (rat \<times> rat) option" where
  "color_scale col =
     (let max_val = (if col \<noteq> [] then series_max col else Some 1);
          min_val = (if col \<noteq> [] then series_min col else Some 0)
      in case (max_val, min_val) of
           (Some mx, Some mn) \<Rightarrow> Some (mn, if mx \<noteq> mn then fl (mx - mn) else 1)
         | _ \<Rightarrow> None)"

definition color_list :: "rat option list \<Rightarrow> string list" where
  "color_list col =
     (case color_scale col of
        Some (min_val, val_range) \<Rightarrow> map (point_color min_val val_range) col
      | None \<Rightarrow> map (\<lambda>val. ''rgba(200,200,200,0.6)'') col)"

definition edge_color_list :: "rat option list \<Rightarrow> string list" where
  "edge_color_list col =
     (case color_scale col of
        Some (min_val, val_range) \<Rightarrow> map (point_edge_color min_val val_range) col
      | None \<Rightarrow> map (\<lambda>val. ''rgba(120,120,120,1)'') col)"

subsection \<open>Sizes and labels\<close>

text \<open>Line 121, on one value: a float product, then a float sum.\<close>

definition bubble_size_of :: "rat option \<Rightarrow> rat option" where
  "bubble_size_of v = map_option (\<lambda>q. fl (fl (\<bar>q\<bar> * 500) + 20)) v"

text \<open>A comparison with NaN is false.\<close>

definition float_less :: "rat option \<Rightarrow> rat \<Rightarrow> bool" where
  "float_less a b = (case a of Some q \<Rightarrow> q < b | None \<Rightarrow> False)"

definition text_size_of :: "rat option \<Rightarrow> nat" where
  "text_size_of bubble_size =
     (if float_less bubble_size 50 then 8
      else if float_less bubble_size 80 then 10
      else 12)"

definition text_label_of :: "rat option \<Rightarrow> ustr \<Rightarrow> ustr" where
  "text_label_of bubble_size stock_name =
     (if float_less bubble_size 50 then
        (if length stock_name > 4 then take 3 stock_name @ ascii ''...'' else stock_name)
      else if float_less bubble_size 80 then
        (if length stock_name > 6 then take 5 stock_name @ ascii ''...'' else stock_name)
      else stock_name)"

subsection \<open>The encoder\<close>

definition matches :: "ustr \<Rightarrow> ustr list \<Rightarrow> row \<Rightarrow> bool" where
  "matches selected_period selected_stocks r \<longleftrightarrow>
     period r = Str selected_period \<and> entity_name r \<in> set selected_stocks"

text \<open>\<open>dropna(subset=[...])\<close> keeps the rows with no missing value in the three columns.\<close>

definition no_missing :: "row \<Rightarrow> bool" where
  "no_missing r \<longleftrightarrow>
     asset_turnover r \<noteq> NaN \<and> net_profit_margin r \<noteq> None \<and> return_on_assets r \<noteq> None"

definition title_prefix :: ustr where
  "title_prefix = [26381, 35013, 34892, 19994, 24635, 36164, 20135, 25910, 30410, 29575,
                   20998, 26512, 32]"

definition build_chart :: "ustr \<Rightarrow> row list \<Rightarrow> chart" where
  "build_chart selected_period filtered =
     (let sizes = map (bubble_size_of \<circ> return_on_assets) filtered
      in \<lparr>x_values = map asset_turnover filtered,
          y_values = map (\<lambda>r. map_option (\<lambda>q. fl (q * 100)) (net_profit_margin r)) filtered,
          bubble_sizes = sizes,
          colors = color_list (map return_on_assets filtered),
          edge_colors = edge_color_list (map return_on_assets filtered),
          text_labels = map (\<lambda>(bubble_size, r). text_label_of bubble_size (entity_name r))
                            (zip sizes filtered),
          text_sizes = map (\<lambda>(bubble_size, r). text_size_of bubble_size) (zip sizes filtered),
          customdata = map entity_name filtered,
          title_text = title_prefix @ selected_period\<rparr>)"

text \<open>
  The result is \<open>Inl\<close> for a column that does not exist, \<open>Inr None\<close> for the
  \<open>return None\<close> of lines 111 and 117, and \<open>Inr (Some fig)\<close> for a figure.
\<close>

definition create_bubble_chart :: "dataframe \<Rightarrow> ustr \<Rightarrow> ustr list \<Rightarrow> error + chart option" where
  "create_bubble_chart df selected_period selected_stocks =
     (if Period \<notin> set (columns df) then Inl (KeyError Period)
      else if EntityName \<notin> set (columns df) then Inl (KeyError EntityName)
      else
        let filtered_df = filter (matches selected_period selected_stocks) (rows df)
        in if filtered_df = [] then Inr None
           else if AssetTurnover \<notin> set (columns df) then Inl (KeyError AssetTurnover)
           else if NetProfitMargin \<notin> set (columns df) then Inl (KeyError NetProfitMargin)
           else if ReturnOnAssets \<notin> set (columns df) then Inl (KeyError ReturnOnAssets)
           else
             let filtered_df = filter no_missing filtered_df
             in if filtered_df = [] then Inr None
                else Inr (Some (build_chart selected_period filtered_df)))"

section \<open>\<open>main\<close>: the period selector and the detail table\<close>

text \<open>\<open>Series.unique()\<close> keeps the first occurrence of each value, in order.\<close>

definition unique :: "'a list \<Rightarrow> 'a list" where
  "unique xs = rev (remdups (rev xs))"

text \<open>
  \<open>main\<close> reads the period column after \<open>preprocess_data\<close> has made every period a
  text; the texts of the column are collected here.
\<close>

definition period_texts :: "dataframe \<Rightarrow> ustr list" where
  "period_texts df = [s. Str s \<leftarrow> map period (rows df)]"

definition index_of :: "'a \<Rightarrow> 'a list \<Rightarrow> nat" where
  "index_of a xs = length (takeWhile (\<lambda>x. x \<noteq> a) xs)"

text \<open>
  Lines 247 to 253: the sorted period list, the default period, and the entry of the
  list that the select box shows first. \<open>periods[0]\<close> on an empty list raises.
\<close>

definition sorted_periods :: "dataframe \<Rightarrow> ustr list" where
  "sorted_periods df = rev (sort (unique (period_texts df)))"

definition default_period :: "dataframe \<Rightarrow> error + ustr" where
  "default_period df =
     (if Period \<notin> set (columns df) then Inl (KeyError Period)
      else
        let periods = sorted_periods df
        in if ascii ''20241231'' \<in> set periods then Inr (ascii ''20241231'')
           else (case periods of [] \<Rightarrow> Inl IndexError | p # ps \<Rightarrow> Inr p))"

definition initial_period :: "dataframe \<Rightarrow> error + ustr" where
  "initial_period df =
     (case default_period df of
        Inl e \<Rightarrow> Inl e
      | Inr d \<Rightarrow>
          let periods = sorted_periods df;
              index = (if d \<in> set periods then index_of d periods else 0)
          in Inr (periods ! index))"

subsection \<open>Fixed-point formatting\<close>

text \<open>
  \<open>format(x, '.Nf')\<close> for \<open>N\<close> at least 1: the exact value of the float rounded to \<open>N\<close>
  decimals, ties to even, printed with a sign when \<open>x\<close> is negative, the integer part, a
  point and exactly \<open>N\<close> digits.
\<close>

definition zero_pad :: "nat \<Rightarrow> string \<Rightarrow> string" where
  "zero_pad d s = replicate (d - length s) (CHR ''0'') @ s"

definition format_fixed :: "nat \<Rightarrow> rat \<Rightarrow> string" where
  "format_fixed d q =
     (let n = nat (round_half_even (\<bar>q\<bar> * 10 ^ d))
      in (if q < 0 then ''-'' else []) @ str_nat (n div 10 ^ d) @ ''.''
           @ zero_pad d (str_nat (n mod 10 ^ d)))"

text \<open>
  The three lambdas of lines 286 to 288; \<open>x*100\<close> is a float product. A text in the
  turnover column makes the format specification \<open>.3f\<close> raise.
\<close>

definition percent_text :: "rat option \<Rightarrow> string" where
  "percent_text x =
     (case x of Some v \<Rightarrow> format_fixed 2 (fl (v * 100)) @ ''%'' | None \<Rightarrow> ''N/A'')"

definition ratio_text :: "cell \<Rightarrow> error + string" where
  "ratio_text x =
     (case x of
        Num v \<Rightarrow> Inr (format_fixed 3 v)
      | NaN \<Rightarrow> Inr ''N/A''
      | Str s \<Rightarrow> Inl ValueError)"

record display_row =
  shown_entity_name :: ustr
  shown_period :: cell
  shown_net_profit_margin :: string
  shown_asset_turnover :: string
  shown_return_on_assets :: string

definition display_of :: "row \<Rightarrow> error + display_row" where
  "display_of r =
     (case ratio_text (asset_turnover r) of
        Inl e \<Rightarrow> Inl e
      | Inr t \<Rightarrow>
          Inr \<lparr>shown_entity_name = entity_name r,
               shown_period = period r,
               shown_net_profit_margin = percent_text (net_profit_margin r),
               shown_asset_turnover = t,
               shown_return_on_assets = percent_text (return_on_assets r)\<rparr>)"

fun display_all :: "row list \<Rightarrow> error + display_row list" where
  "display_all [] = Inr []"
| "display_all (r # rs) =
     (case display_of r of
        Inl e \<Rightarrow> Inl e
      | Inr d \<Rightarrow> (case display_all rs of Inl e \<Rightarrow> Inl e | Inr ds \<Rightarrow> Inr (d # ds)))"

text \<open>
  Lines 278 to 289: \<open>Inr None\<close> is the warning shown when no row matches, \<open>Inr (Some _)\<close>
  the formatted table.
\<close>

definition display_data :: "dataframe \<Rightarrow> ustr \<Rightarrow> ustr list \<Rightarrow> error + display_row list option" where
  "display_data df selected_period selected_stocks =
     (if Period \<notin> set (columns df) then Inl (KeyError Period)
      else if EntityName \<notin> set (columns df) then Inl (KeyError EntityName)
      else
        let filtered_data = filter (matches selected_period selected_stocks) (rows df)
        in if filtered_data = [] then Inr None
           else if NetProfitMargin \<notin> set (columns df) then Inl (KeyError NetProfitMargin)
           else if AssetTurnover \<notin> set (columns df) then Inl (KeyError AssetTurnover)
           else if ReturnOnAssets \<notin> set (columns df) then Inl (KeyError ReturnOnAssets)
           else (case display_all filtered_data of
                   Inl e \<Rightarrow> Inl e
                 | Inr ds \<Rightarrow> Inr (Some ds)))"

section \<open>Notions used in the statements\<close>

text \<open>
  The rows that reach the chart: those left by the filter of lines 105 to 108 and the
  \<open>dropna\<close> of line 114, in the order of the table.
\<close>

definition surviving_rows :: "dataframe \<Rightarrow> ustr \<Rightarrow> ustr list \<Rightarrow> row list" where
  "surviving_rows df selected_period selected_stocks =
     filter no_missing (filter (matches selected_period selected_stocks) (rows df))"

subsection \<open>Example tables\<close>

text \<open>
  A row as \<open>preprocess_data\<close> leaves it: the return on assets is given in percent, as
  loaded, and the derived column holds the float quotient by 100.
\<close>

definition example_row :: "string \<Rightarrow> cell \<Rightarrow> rat option \<Rightarrow> row" where
  "example_row name turnover roa_percent =
     \<lparr>entity_name = ascii name, period = Str (ascii ''P1''),
      net_profit_margin_raw = Num 10,
      return_on_assets_raw = float_cell roa_percent,
      asset_turnover = turnover, net_profit_margin = Some (fl (10 / 100)),
      return_on_assets = map_option (\<lambda>q. fl (q / 100)) roa_percent\<rparr>"

definition all_columns :: "column list" where
  "all_columns = [EntityName, Period, NetProfitMarginRaw, AssetTurnover, ReturnOnAssetsRaw,
                  NetProfitMargin, ReturnOnAssets]"

text \<open>
  Three entities in period \<open>P1\<close> with returns on assets 0.01, 0.05 and 0.09 (the floats
  nearest to these numbers).
\<close>

definition example_df :: dataframe where
  "example_df =
     \<lparr>columns = all_columns,
      rows = [example_row ''A'' (Num (1 / 2)) (Some 1),
              example_row ''B'' (Num (1 / 2)) (Some 5),
              example_row ''C'' (Num (1 / 2)) (Some 9)]\<rparr>"

definition example_names :: "ustr list" where
  "example_names = [ascii ''A'', ascii ''B'', ascii ''C'']"

text \<open>
  Names of ten characters with returns on assets 0.04, -0.10 and 0.16 (diameters 40, 70
  and 100), a short name with return 0 (diameter 20), and one row without asset turnover.
\<close>

definition label_df :: dataframe where
  "label_df =
     \<lparr>columns = all_columns,
      rows = [example_row ''Alpha Corp'' (Num 1) (Some 4),
              example_row ''Alpha Corp'' NaN (Some 5),
              example_row ''Beta Group'' (Num 1) (Some (- 10)),
              example_row ''Gamma Wear'' (Num 1) (Some 16),
              example_row ''Delta'' (Num 1) (Some 0)]\<rparr>"

definition label_names :: "ustr list" where
  "label_names = [ascii ''Alpha Corp'', ascii ''Beta Group'', ascii ''Gamma Wear'', ascii ''Delta'']"

text \<open>
  Returns on assets 0.06, -0.06 and 0: the float nearest to 0.06 lies below 0.06, and
  the rounded product and sum of line 121 give the diameter 50.
\<close>

definition size_df :: dataframe where
  "size_df =
     \<lparr>columns = all_columns,
      rows = [example_row ''A'' (Num 1) (Some 6),
              example_row ''B'' (Num 1) (Some (- 6)),
              example_row ''C'' (Num 1) (Some 0)]\<rparr>"

subsection \<open>The colour mapping as the specification words it\<close>

text \<open>
  The normalised value of \<open>v\<close> over the values \<open>vals\<close> of the filtered set, with the range
  taken as 1 when the minimum equals the maximum, and the two colour strings of a
  normalised value \<open>t\<close>: channels \<open>255 t\<close>, \<open>102 - 42 t\<close> and \<open>255 - 195 t\<close> truncated, fill
  alpha 0.70; border channels 40 less, not below 0, alpha 0.95. The operations are those
  of float64.
\<close>

definition spec_norm :: "rat list \<Rightarrow> rat \<Rightarrow> rat" where
  "spec_norm vals v =
     (let min_val = Min (set vals); max_val = Max (set vals);
          rng = (if min_val = max_val then 1 else fl (max_val - min_val))
      in fl (fl (v - min_val) / rng))"

definition spec_fill :: "rat \<Rightarrow> string" where
  "spec_fill t =
     ''rgba('' @ str_int (py_int (fl (255 * t))) @ '',''
       @ str_int (py_int (fl (102 - fl (42 * t)))) @ '',''
       @ str_int (py_int (fl (255 - fl (195 * t)))) @ '',0.70)''"

definition spec_border :: "rat \<Rightarrow> string" where
  "spec_border t =
     ''rgba('' @ str_int (max (py_int (fl (255 * t)) - 40) 0) @ '',''
       @ str_int (max (py_int (fl (102 - fl (42 * t))) - 40) 0) @ '',''
       @ str_int (max (py_int (fl (255 - fl (195 * t))) - 40) 0) @ '',0.95)''"

subsection \<open>A table as loaded\<close>

text \<open>
  Stand-ins for the two library functions in the examples: a reading of texts that
  knows the text \<open>12.5\<close> and no other, and a printing of numbers that is never reached
  because the example periods are texts.
\<close>

definition example_parse :: "ustr \<Rightarrow> rat option" where
  "example_parse s = (if s = ascii ''12.5'' then Some (25 / 2) else None)"

definition example_num_str :: "rat \<Rightarrow> ustr" where
  "example_num_str q = ascii ''0''"

definition raw_row :: "string \<Rightarrow> string \<Rightarrow> cell \<Rightarrow> cell \<Rightarrow> row" where
  "raw_row name p margin_percent roa_percent =
     \<lparr>entity_name = ascii name, period = Str (ascii p),
      net_profit_margin_raw = margin_percent,
      return_on_assets_raw = roa_percent,
      asset_turnover = Num (3 / 2), net_profit_margin = None,
      return_on_assets = None\<rparr>"

definition raw_columns :: "column list" where
  "raw_columns = [EntityName, Period, NetProfitMarginRaw, AssetTurnover, ReturnOnAssetsRaw]"

text \<open>
  Net profit margins 12.34 (the float nearest to it) as a number, 12.5 as a text, and a
  missing one; returns on assets 6, a text that is no number, and 0.
\<close>

definition raw_df :: dataframe where
  "raw_df =
     \<lparr>columns = raw_columns,
      rows = [raw_row ''A'' ''20241231'' (Num (fl (1234 / 100))) (Num 6),
              raw_row ''B'' ''20241231'' (Str (ascii ''12.5'')) (Str (ascii ''n/a'')),
              raw_row ''C'' ''20241231'' NaN (Num 0)]\<rparr>"

text \<open>Periods 2023, 2024 and 2025, and a table without the period 20241231.\<close>

definition later_df :: dataframe where
  "later_df =
     \<lparr>columns = raw_columns,
      rows = [raw_row ''A'' ''20231231'' (Num 1) (Num 1),
              raw_row ''A'' ''20241231'' (Num 1) (Num 1),
              raw_row ''A'' ''20251231'' (Num 1) (Num 1)]\<rparr>"

definition earlier_df :: dataframe where
  "earlier_df =
     \<lparr>columns = raw_columns,
      rows = [raw_row ''A'' ''20221231'' (Num 1) (Num 1),
              raw_row ''A'' ''20231231'' (Num 1) (Num 1),
              raw_row ''B'' ''20221231'' (Num 1) (Num 1)]\<rparr>"

subsection \<open>The rows of the detail table\<close>

text \<open>The rows that the filter of lines 278 to 281 keeps, in the order of the table.\<close>

definition detail_rows :: "dataframe \<Rightarrow> ustr \<Rightarrow> ustr list \<Rightarrow> row list" where
  "detail_rows df selected_period selected_stocks =
     filter (matches selected_period selected_stocks) (rows df)"

text \<open>
  A preprocessed table of two rows: net profit margin 0.1234 and turnover 1.5 without
  return on assets, and return on assets -0.005 without margin and turnover.
\<close>

definition detail_row :: "string \<Rightarrow> rat option \<Rightarrow> cell \<Rightarrow> rat option \<Rightarrow> row" where
  "detail_row name margin turnover roa =
     \<lparr>entity_name = ascii name, period = Str (ascii ''P1''),
      net_profit_margin_raw = NaN, return_on_assets_raw = NaN,
      asset_turnover = turnover, net_profit_margin = margin,
      return_on_assets = roa\<rparr>"

definition detail_df :: dataframe where
  "detail_df =
     \<lparr>columns = all_columns,
      rows = [detail_row ''A'' (Some (fl (1234 / 10000))) (Num (3 / 2)) None,
              detail_row ''B'' None NaN (Some (fl (- 5 / 1000)))]\<rparr>"

subsection \<open>Decimal texts\<close>

text \<open>The text after the first point of a text, and texts made of decimal digits only.\<close>

definition decimals :: "string \<Rightarrow> string" where
  "decimals s = drop (Suc (length (takeWhile (\<lambda>c. c \<noteq> CHR ''.'') s))) s"

definition all_digits :: "string \<Rightarrow> bool" where
  "all_digits s \<longleftrightarrow> list_all (\<lambda>c. c \<in> set ''0123456789'') s"

section \<open>Properties\<close>

subsection \<open>float64 rounding\<close>

text \<open>
  The exponent brackets the number, rounding is monotone, keeps the sign, leaves a float
  unchanged, and gives 0 only for 0.
\<close>

lemma up_bracket:
  assumes "1 \<le> x"
  shows "2 powi up x \<le> x \<and> x < 2 powi (up x + 1)"
  using assms
proof (induction x rule: up.induct)
  case (1 x)
  show ?case
  proof (cases "2 \<le> x")
    case True
    then have "1 \<le> x / 2" by simp
    with "1.IH" True have ih: "2 powi up (x / 2) \<le> x / 2" "x / 2 < 2 powi (up (x / 2) + 1)"
      by simp_all
    have u: "up x = up (x / 2) + 1"
      using True by (simp add: up.simps [of x])
    have p: "(2::rat) powi (up (x / 2) + 1 + 1) = 2 powi (up (x / 2) + 1) * 2"
      by (rule power_int_add_1) simp
    have q: "(2::rat) powi (up (x / 2) + 1) = 2 powi up (x / 2) * 2"
      by (rule power_int_add_1) simp
    from ih show ?thesis
      unfolding u p by (simp add: q)
  next
    case False
    then have "up x = 0"
      by (simp add: up.simps [of x])
    with False "1.prems" show ?thesis by simp
  qed
qed

lemma down_bracket:
  assumes "0 < x" and "x < 1"
  shows "2 powi down x \<le> x \<and> x < 2 powi (down x + 1)"
  using assms
proof (induction x rule: down.induct)
  case (1 x)
  have d: "down x = down (x * 2) - 1"
    using "1.prems" by (simp add: down.simps [of x])
  have p: "(2::rat) powi (down (x * 2) - 1 + 1) = 2 powi (down (x * 2) - 1) * 2"
    by (rule power_int_add_1) simp
  show ?case
  proof (cases "x * 2 < 1")
    case True
    with "1.IH" "1.prems" have ih: "2 powi down (x * 2) \<le> x * 2" "x * 2 < 2 powi (down (x * 2) + 1)"
      by simp_all
    have q: "(2::rat) powi (down (x * 2) + 1) = 2 powi down (x * 2) * 2"
      by (rule power_int_add_1) simp
    from ih p show ?thesis
      unfolding d by (simp add: q)
  next
    case False
    then have "down (x * 2) = 0"
      by (simp add: down.simps [of "x * 2"])
    with False "1.prems" show ?thesis
      unfolding d by (simp add: power_int_minus)
  qed
qed

lemma exponent_bracket:
  assumes "x \<noteq> 0"
  shows "2 powi exponent x \<le> \<bar>x\<bar> \<and> \<bar>x\<bar> < 2 powi (exponent x + 1)"
proof (cases "1 \<le> \<bar>x\<bar>")
  case True
  then show ?thesis
    using up_bracket [of "\<bar>x\<bar>"] by (simp add: exponent_def)
next
  case False
  with assms show ?thesis
    using down_bracket [of "\<bar>x\<bar>"] by (simp add: exponent_def)
qed

lemma exponent_mono:
  assumes "0 < x" and "x \<le> y"
  shows "exponent x \<le> exponent y"
proof (rule ccontr)
  assume "\<not> exponent x \<le> exponent y"
  then have "exponent y + 1 \<le> exponent x" by simp
  then have "(2::rat) powi (exponent y + 1) \<le> 2 powi exponent x"
    by (rule power_int_increasing) simp
  moreover have "y < 2 powi (exponent y + 1)" and "2 powi exponent x \<le> x"
    using exponent_bracket [of x] exponent_bracket [of y] assms by simp_all
  ultimately show False
    using assms by simp
qed

lemma round_half_even_of_int [simp]: "round_half_even (of_int n) = n"
  by (simp add: round_half_even_def)

lemma round_half_even_mono:
  assumes "z \<le> w"
  shows "round_half_even z \<le> round_half_even w"
proof -
  have fl: "\<lfloor>z\<rfloor> \<le> \<lfloor>w\<rfloor>"
    using assms by (rule floor_mono)
  have lo: "\<lfloor>z\<rfloor> \<le> round_half_even z" "\<lfloor>w\<rfloor> \<le> round_half_even w"
    and hi: "round_half_even z \<le> \<lfloor>z\<rfloor> + 1" "round_half_even w \<le> \<lfloor>w\<rfloor> + 1"
    by (simp_all add: round_half_even_def Let_def)
  show ?thesis
  proof (cases "\<lfloor>z\<rfloor> < \<lfloor>w\<rfloor>")
    case True
    with lo hi show ?thesis by linarith
  next
    case False
    with fl have eq: "\<lfloor>z\<rfloor> = \<lfloor>w\<rfloor>" by simp
    with assms show ?thesis
      by (auto simp: round_half_even_def Let_def)
  qed
qed


lemma fl_zero [simp]: "fl 0 = 0"
  by (simp add: fl_def)

lemma fl_minus: "fl (- x) = - fl x"
  by (simp add: fl_def)

lemma quantum_scale:
  "4503599627370496 * (2::rat) powi (e - 52) = 2 powi e"
  "9007199254740992 * (2::rat) powi (e - 52) = 2 powi (e + 1)"
proof -
  have "(2::rat) powi (e - 52 + 52) = 2 powi (e - 52) * 2 powi 52"
    by (rule power_int_add) simp
  then show "4503599627370496 * (2::rat) powi (e - 52) = 2 powi e"
    by simp
  have eq: "e - 52 + 53 = e + 1"
    by simp
  have "(2::rat) powi (e - 52 + 53) = 2 powi (e - 52) * 2 powi 53"
    by (rule power_int_add) simp
  then show "9007199254740992 * (2::rat) powi (e - 52) = 2 powi (e + 1)"
    unfolding eq by simp
qed

lemma significand_bounds:
  assumes "0 < x"
  shows "4503599627370496 \<le> round_half_even (x / 2 powi (exponent x - 52))"
    and "round_half_even (x / 2 powi (exponent x - 52)) \<le> 9007199254740992"
proof -
  let ?q = "(2::rat) powi (exponent x - 52)"
  have q: "0 < ?q" by simp
  from assms have br: "2 powi exponent x \<le> x" "x < 2 powi (exponent x + 1)"
    using exponent_bracket [of x] by simp_all
  have "4503599627370496 * ?q \<le> x"
    using br(1) by (simp only: quantum_scale)
  then have lo: "of_int 4503599627370496 \<le> x / ?q"
    using q by (simp add: pos_le_divide_eq)
  have "x \<le> 9007199254740992 * ?q"
    using br(2) by (simp only: quantum_scale)
  then have hi: "x / ?q \<le> of_int 9007199254740992"
    using q by (simp add: pos_divide_le_eq)
  from round_half_even_mono [OF lo] show "4503599627370496 \<le> round_half_even (x / ?q)"
    by (simp only: round_half_even_of_int)
  from round_half_even_mono [OF hi] show "round_half_even (x / ?q) \<le> 9007199254740992"
    by (simp only: round_half_even_of_int)
qed

lemma round53_bounds:
  assumes "0 < x"
  shows "2 powi exponent x \<le> round53 x" and "round53 x \<le> 2 powi (exponent x + 1)"
proof -
  let ?q = "(2::rat) powi (exponent x - 52)"
  let ?n = "round_half_even (x / ?q)"
  have q: "0 < ?q" by simp
  have r: "round53 x = of_int ?n * ?q"
    by (simp add: round53_def Let_def)
  have "(4503599627370496::rat) \<le> of_int ?n"
    using significand_bounds(1) [OF assms] by simp
  then have "4503599627370496 * ?q \<le> of_int ?n * ?q"
    using q by (simp only: mult_le_cancel_right_pos)
  then show "2 powi exponent x \<le> round53 x"
    by (simp only: r quantum_scale)
  have "of_int ?n \<le> (9007199254740992::rat)"
    using significand_bounds(2) [OF assms] by simp
  then have "of_int ?n * ?q \<le> 9007199254740992 * ?q"
    using q by (simp only: mult_le_cancel_right_pos)
  then show "round53 x \<le> 2 powi (exponent x + 1)"
    by (simp only: r quantum_scale)
qed

lemma round53_pos:
  assumes "0 < x"
  shows "0 < round53 x"
proof -
  have "(0::rat) < 2 powi exponent x" by simp
  with round53_bounds(1) [OF assms] show ?thesis by linarith
qed

lemma round53_mono:
  assumes "0 < x" and "x \<le> y"
  shows "round53 x \<le> round53 y"
proof -
  from assms have y: "0 < y" by simp
  have e: "exponent x \<le> exponent y"
    using assms by (rule exponent_mono)
  show ?thesis
  proof (cases "exponent x = exponent y")
    case True
    let ?q = "(2::rat) powi (exponent y - 52)"
    have q: "0 < ?q" by simp
    then have "x / ?q \<le> y / ?q"
      using assms(2) by (simp add: divide_right_mono)
    then have "round_half_even (x / ?q) \<le> round_half_even (y / ?q)"
      by (rule round_half_even_mono)
    then have "(of_int (round_half_even (x / ?q)) :: rat) \<le> of_int (round_half_even (y / ?q))"
      by simp
    then have "of_int (round_half_even (x / ?q)) * ?q \<le> of_int (round_half_even (y / ?q)) * ?q"
      using q by (simp only: mult_le_cancel_right_pos)
    then show ?thesis
      by (simp add: round53_def Let_def True)
  next
    case False
    with e have "exponent x + 1 \<le> exponent y" by simp
    then have "(2::rat) powi (exponent x + 1) \<le> 2 powi exponent y"
      by (rule power_int_increasing) simp
    with round53_bounds(2) [OF assms(1)] round53_bounds(1) [OF y] show ?thesis
      by linarith
  qed
qed

lemma fl_pos: "0 < x \<Longrightarrow> 0 < fl x"
  by (simp add: fl_def round53_pos)

lemma fl_mono:
  assumes "x \<le> y"
  shows "fl x \<le> fl y"
proof -
  consider "0 < x" | "x = 0" | "x < 0" "y < 0" | "x < 0" "0 \<le> y"
    by linarith
  then show ?thesis
  proof cases
    case 1
    with assms have "0 < y" by simp
    with 1 assms show ?thesis
      by (simp add: fl_def round53_mono)
  next
    case 2
    show ?thesis
    proof (cases "y = 0")
      case True
      with 2 show ?thesis by simp
    next
      case False
      with 2 assms have "0 < y" by simp
      from fl_pos [OF this] 2 show ?thesis by simp
    qed
  next
    case 3
    then have "0 < - y" and "- y \<le> - x"
      using assms by simp_all
    then have "round53 (- y) \<le> round53 (- x)"
      by (rule round53_mono)
    with 3 show ?thesis
      by (simp add: fl_def)
  next
    case 4
    then have "0 < - x" by simp
    from fl_pos [OF this] have "fl x < 0"
      by (simp add: fl_minus)
    moreover have "0 \<le> fl y"
    proof (cases "y = 0")
      case True
      then show ?thesis by simp
    next
      case False
      with 4 have "0 < y" by simp
      from fl_pos [OF this] show ?thesis by simp
    qed
    ultimately show ?thesis by simp
  qed
qed

lemma exponent_unique:
  assumes "2 powi k \<le> \<bar>z\<bar>" and "\<bar>z\<bar> < 2 powi (k + 1)"
  shows "exponent z = k"
proof -
  have "(0::rat) < 2 powi k" by simp
  with assms(1) have "0 < \<bar>z\<bar>" by linarith
  then have nz: "z \<noteq> 0" by simp
  note br = exponent_bracket [OF nz]
  have "\<not> exponent z < k"
  proof
    assume "exponent z < k"
    then have "exponent z + 1 \<le> k" by simp
    then have "(2::rat) powi (exponent z + 1) \<le> 2 powi k"
      by (rule power_int_increasing) simp
    with br assms(1) show False by linarith
  qed
  moreover have "\<not> k < exponent z"
  proof
    assume "k < exponent z"
    then have "k + 1 \<le> exponent z" by simp
    then have "(2::rat) powi (k + 1) \<le> 2 powi exponent z"
      by (rule power_int_increasing) simp
    with br assms(2) show False by linarith
  qed
  ultimately show ?thesis by simp
qed

lemma round53_representable:
  assumes "(2::rat) powi e \<le> of_int n * 2 powi (e - 52)"
    and "of_int n * (2::rat) powi (e - 52) < 2 powi (e + 1)"
  shows "round53 (of_int n * 2 powi (e - 52)) = of_int n * 2 powi (e - 52)"
proof -
  let ?q = "(2::rat) powi (e - 52)"
  have q: "?q \<noteq> 0" by simp
  have "(0::rat) < 2 powi e" by simp
  with assms(1) have pos: "0 < of_int n * ?q" by linarith
  then have "exponent (of_int n * ?q) = e"
    using assms by (intro exponent_unique) simp_all
  then have "round53 (of_int n * ?q) = of_int (round_half_even (of_int n * ?q / ?q)) * ?q"
    by (simp only: round53_def Let_def)
  also have "of_int n * ?q / ?q = of_int n"
    using q by simp
  finally show ?thesis
    by (simp only: round_half_even_of_int)
qed

lemma round53_idem:
  assumes "0 < x"
  shows "round53 (round53 x) = round53 x"
proof -
  let ?e = "exponent x"
  let ?q = "(2::rat) powi (?e - 52)"
  let ?n = "round_half_even (x / ?q)"
  have r: "round53 x = of_int ?n * ?q"
    by (simp add: round53_def Let_def)
  note b = round53_bounds [OF assms]
  show ?thesis
  proof (cases "round53 x < 2 powi (?e + 1)")
    case True
    with b(1) show ?thesis
      unfolding r by (rule round53_representable)
  next
    case False
    with b(2) have v: "round53 x = 2 powi (?e + 1)" by simp
    have s: "(2::rat) powi (?e + 1) = of_int 4503599627370496 * 2 powi (?e + 1 - 52)"
      using quantum_scale(1) [of "?e + 1"] by simp
    have "(2::rat) powi (?e + 1) < 2 powi (?e + 1 + 1)"
      by (rule power_int_strict_increasing) simp_all
    then have "round53 (of_int 4503599627370496 * 2 powi (?e + 1 - 52))
        = of_int 4503599627370496 * 2 powi (?e + 1 - 52)"
      by (intro round53_representable) (simp_all only: s [symmetric] order_refl)
    then show ?thesis
      by (simp only: v s [symmetric])
  qed
qed

lemma fl_idem [simp]: "fl (fl x) = fl x"
proof -
  consider "x = 0" | "0 < x" | "x < 0" by linarith
  then show ?thesis
  proof cases
    case 1
    then show ?thesis by simp
  next
    case 2
    then show ?thesis
      by (simp add: fl_def round53_pos round53_idem)
  next
    case 3
    then have p: "0 < - x" by simp
    from round53_pos [OF p] round53_idem [OF p] 3 show ?thesis
      by (simp add: fl_def)
  qed
qed

text \<open>The integer constants of the colour formulas are floats.\<close>

lemma fl_consts:
  "fl 1 = 1" "fl 42 = 42" "fl 60 = 60" "fl 102 = 102" "fl 195 = 195" "fl 255 = 255"
  by code_simp+

lemma fl_range:
  assumes "a \<le> x" and "x \<le> b" and "fl a = a" and "fl b = b"
  shows "a \<le> fl x \<and> fl x \<le> b"
  using fl_mono [OF assms(1)] fl_mono [OF assms(2)] assms(3,4) by simp

subsection \<open>What a returned figure is made of\<close>

lemma create_bubble_chart_Some:
  assumes "create_bubble_chart df p s = Inr (Some fig)"
  shows "fig = build_chart p (surviving_rows df p s)" and "surviving_rows df p s \<noteq> []"
  using assms
  by (auto simp: create_bubble_chart_def surviving_rows_def Let_def split: if_splits)

lemma surviving_present:
  assumes "r \<in> set (surviving_rows df p s)"
  shows "\<exists>v. return_on_assets r = Some v"
  using assms by (auto simp: surviving_rows_def no_missing_def)

lemma build_chart_fields:
  "bubble_sizes (build_chart p rs) = map (bubble_size_of \<circ> return_on_assets) rs"
  "colors (build_chart p rs) = color_list (map return_on_assets rs)"
  "edge_colors (build_chart p rs) = edge_color_list (map return_on_assets rs)"
  "text_labels (build_chart p rs) =
     map (\<lambda>r. text_label_of (bubble_size_of (return_on_assets r)) (entity_name r)) rs"
  "text_sizes (build_chart p rs) = map (\<lambda>r. text_size_of (bubble_size_of (return_on_assets r))) rs"
  "customdata (build_chart p rs) = map entity_name rs"
  by (simp_all add: build_chart_def Let_def zip_map1 zip_same_conv_map comp_def)

lemma example_row_fields:
  "entity_name (example_row name turnover roa_percent) = ascii name"
  "period (example_row name turnover roa_percent) = Str (ascii ''P1'')"
  "asset_turnover (example_row name turnover roa_percent) = turnover"
  "net_profit_margin (example_row name turnover roa_percent) = Some (fl (10 / 100))"
  "return_on_assets (example_row name turnover roa_percent)
     = map_option (\<lambda>q. fl (q / 100)) roa_percent"
  by (simp_all add: example_row_def)

subsection \<open>Bubble diameters\<close>

text \<open>
  Claim C2. Every point of a returned figure belongs to a surviving row whose return on
  assets \<open>v\<close> is present, and its diameter is \<open>|v| * 500 + 20\<close> as float64 computes it
  (the product is rounded, then the sum): the sign of \<open>v\<close> plays no part, and \<open>v = 0\<close>
  gives 20.
\<close>

theorem bubble_diameter:
  assumes "create_bubble_chart df p s = Inr (Some fig)"
    and "i < length (bubble_sizes fig)"
  shows "\<exists>v. return_on_assets (surviving_rows df p s ! i) = Some v
            \<and> bubble_sizes fig ! i = Some (fl (fl (\<bar>v\<bar> * 500) + 20))
            \<and> bubble_size_of (Some (- v)) = bubble_sizes fig ! i
            \<and> (v = 0 \<longrightarrow> bubble_sizes fig ! i = Some 20)"
proof -
  have fig: "fig = build_chart p (surviving_rows df p s)"
    using assms(1) by (rule create_bubble_chart_Some)
  with assms(2) have i: "i < length (surviving_rows df p s)"
    by (simp add: build_chart_fields)
  then obtain v where v: "return_on_assets (surviving_rows df p s ! i) = Some v"
    using surviving_present [of "surviving_rows df p s ! i" df p s] by auto
  have "fl 20 = 20"
    by code_simp
  with i v fig show ?thesis
    by (simp add: build_chart_fields bubble_size_of_def)
qed

text \<open>The example with returns on assets 0.06, -0.06 and 0, evaluated.\<close>

lemma size_surviving:
  "surviving_rows size_df (ascii ''P1'') example_names
     = [example_row ''A'' (Num 1) (Some 6),
        example_row ''B'' (Num 1) (Some (- 6)),
        example_row ''C'' (Num 1) (Some 0)]"
  by (simp add: surviving_rows_def size_df_def example_row_def example_names_def matches_def
      no_missing_def ascii_def)

lemma size_chart:
  "create_bubble_chart size_df (ascii ''P1'') example_names
     = Inr (Some (build_chart (ascii ''P1'') (surviving_rows size_df (ascii ''P1'') example_names)))"
  unfolding size_surviving
  by (simp add: create_bubble_chart_def size_df_def all_columns_def example_row_def
      example_names_def matches_def no_missing_def ascii_def)

lemma size_values:
  "bubble_size_of (Some (fl (6 / 100))) = Some 50"
  "bubble_size_of (Some (fl (- 6 / 100))) = Some 50"
  "bubble_size_of (Some (fl (0 / 100))) = Some 20"
  "\<bar>fl (6 / 100)\<bar> * 500 + 20 < 50"
  by code_simp+

theorem bubble_diameter_witness:
  "create_bubble_chart size_df (ascii ''P1'') example_names
     = Inr (Some (build_chart (ascii ''P1'') (surviving_rows size_df (ascii ''P1'') example_names)))
   \<and> bubble_sizes (build_chart (ascii ''P1'') (surviving_rows size_df (ascii ''P1'') example_names))
       = [Some 50, Some 50, Some 20]
   \<and> (\<exists>v. return_on_assets (surviving_rows size_df (ascii ''P1'') example_names ! 0) = Some v
            \<and> bubble_sizes (build_chart (ascii ''P1'') (surviving_rows size_df (ascii ''P1'') example_names)) ! 0
                = Some (fl (fl (\<bar>v\<bar> * 500) + 20)))"
proof -
  let ?fig = "build_chart (ascii ''P1'') (surviving_rows size_df (ascii ''P1'') example_names)"
  have h2: "bubble_sizes ?fig = [Some 50, Some 50, Some 20]"
    unfolding size_surviving
    by (simp only: build_chart_fields list.map comp_def example_row_fields option.map size_values)
  have h3: "0 < length (bubble_sizes ?fig)"
    by (simp add: h2)
  from bubble_diameter [OF size_chart h3] size_chart h2 show ?thesis by blast
qed

subsection \<open>The label example, evaluated\<close>

lemma label_surviving:
  "surviving_rows label_df (ascii ''P1'') label_names
     = [example_row ''Alpha Corp'' (Num 1) (Some 4),
        example_row ''Beta Group'' (Num 1) (Some (- 10)),
        example_row ''Gamma Wear'' (Num 1) (Some 16),
        example_row ''Delta'' (Num 1) (Some 0)]"
  by (simp add: surviving_rows_def label_df_def example_row_def label_names_def matches_def
      no_missing_def ascii_def)

lemma label_chart:
  "create_bubble_chart label_df (ascii ''P1'') label_names
     = Inr (Some (build_chart (ascii ''P1'') (surviving_rows label_df (ascii ''P1'') label_names)))"
  unfolding label_surviving
  by (simp add: create_bubble_chart_def label_df_def all_columns_def example_row_def
      label_names_def matches_def no_missing_def ascii_def)

lemma label_values:
  "bubble_size_of (Some (fl (4 / 100))) = Some 40"
  "bubble_size_of (Some (fl (- 10 / 100))) = Some 70"
  "bubble_size_of (Some (fl (16 / 100))) = Some 100"
  "bubble_size_of (Some (fl (0 / 100))) = Some 20"
  by code_simp+

lemma label_sizes:
  "bubble_sizes (build_chart (ascii ''P1'') (surviving_rows label_df (ascii ''P1'') label_names))
     = [Some 40, Some 70, Some 100, Some 20]"
  unfolding label_surviving
  by (simp only: build_chart_fields list.map comp_def example_row_fields option.map label_values)

subsection \<open>Adaptive labels\<close>

text \<open>
  Claim C3. For every point of a returned figure, with \<open>d\<close> its diameter and \<open>name\<close>
  the entity name of its row: \<open>d < 50\<close> gives font size 8 and the first 3 characters
  plus \<open>...\<close> when the name has more than 4 characters; \<open>50 \<le> d < 80\<close> gives font size
  10 and the first 5 characters plus \<open>...\<close> when the name has more than 6 characters;
  \<open>80 \<le> d\<close> gives font size 12 and the full name. The hover text (\<open>customdata\<close>) is
  the full name in every tier.
\<close>
theorem adaptive_label:
  assumes "create_bubble_chart df p s = Inr (Some fig)"
    and "i < length (surviving_rows df p s)"
  shows "\<exists>d. bubble_sizes fig ! i = Some d
           \<and> customdata fig ! i = entity_name (surviving_rows df p s ! i)
           \<and> (d < 50 \<longrightarrow>
                text_sizes fig ! i = 8
                \<and> text_labels fig ! i =
                    (if length (entity_name (surviving_rows df p s ! i)) > 4
                     then take 3 (entity_name (surviving_rows df p s ! i)) @ ascii ''...''
                     else entity_name (surviving_rows df p s ! i)))
           \<and> (50 \<le> d \<and> d < 80 \<longrightarrow>
                text_sizes fig ! i = 10
                \<and> text_labels fig ! i =
                    (if length (entity_name (surviving_rows df p s ! i)) > 6
                     then take 5 (entity_name (surviving_rows df p s ! i)) @ ascii ''...''
                     else entity_name (surviving_rows df p s ! i)))
           \<and> (80 \<le> d \<longrightarrow>
                text_sizes fig ! i = 12
                \<and> text_labels fig ! i = entity_name (surviving_rows df p s ! i))"
proof -
  have fig: "fig = build_chart p (surviving_rows df p s)"
    using assms(1) by (rule create_bubble_chart_Some)
  obtain v where v: "return_on_assets (surviving_rows df p s ! i) = Some v"
    using surviving_present [of "surviving_rows df p s ! i" df p s] assms(2) by auto
  show ?thesis
    using assms(2) v
    by (simp add: fig build_chart_fields bubble_size_of_def text_size_of_def
        text_label_of_def float_less_def)
qed

theorem adaptive_label_witness:
  "create_bubble_chart label_df (ascii ''P1'') label_names
     = Inr (Some (build_chart (ascii ''P1'') (surviving_rows label_df (ascii ''P1'') label_names)))
   \<and> length (surviving_rows label_df (ascii ''P1'') label_names) = 4
   \<and> bubble_sizes (build_chart (ascii ''P1'') (surviving_rows label_df (ascii ''P1'') label_names)) ! 0
       = Some 40
   \<and> text_sizes (build_chart (ascii ''P1'') (surviving_rows label_df (ascii ''P1'') label_names)) ! 0 = 8
   \<and> text_labels (build_chart (ascii ''P1'') (surviving_rows label_df (ascii ''P1'') label_names)) ! 0
       = ascii ''Alp...''
   \<and> text_labels (build_chart (ascii ''P1'') (surviving_rows label_df (ascii ''P1'') label_names))
       = [ascii ''Alp...'', ascii ''Beta ...'', ascii ''Gamma Wear'', ascii ''Del...'']
   \<and> text_sizes (build_chart (ascii ''P1'') (surviving_rows label_df (ascii ''P1'') label_names))
       = [8, 10, 12, 8]
   \<and> customdata (build_chart (ascii ''P1'') (surviving_rows label_df (ascii ''P1'') label_names))
       = label_names"
proof -
  let ?rows = "surviving_rows label_df (ascii ''P1'') label_names"
  let ?fig = "build_chart (ascii ''P1'') ?rows"
  have h2: "length ?rows = 4"
    by (simp add: label_surviving)
  have h3: "0 < length ?rows"
    by (simp add: h2)
  have name: "entity_name (?rows ! 0) = ascii ''Alpha Corp''"
    by (simp add: label_surviving example_row_def)
  have size: "bubble_sizes ?fig ! 0 = Some 40"
    by (simp add: label_sizes)
  have lab: "take 3 (ascii ''Alpha Corp'') @ ascii ''...'' = ascii ''Alp...''"
    by (simp add: ascii_def)
  have len: "length (ascii ''Alpha Corp'') = 10"
    by (simp add: ascii_def)
  have "text_labels ?fig
      = [text_label_of (Some 40) (ascii ''Alpha Corp''), text_label_of (Some 70) (ascii ''Beta Group''),
         text_label_of (Some 100) (ascii ''Gamma Wear''), text_label_of (Some 20) (ascii ''Delta'')]"
    unfolding label_surviving
    by (simp only: build_chart_fields list.map example_row_fields option.map label_values)
  then have labels: "text_labels ?fig
      = [ascii ''Alp...'', ascii ''Beta ...'', ascii ''Gamma Wear'', ascii ''Del...'']"
    by (simp add: text_label_of_def float_less_def ascii_def)
  have "text_sizes ?fig
      = [text_size_of (Some 40), text_size_of (Some 70), text_size_of (Some 100), text_size_of (Some 20)]"
    unfolding label_surviving
    by (simp only: build_chart_fields list.map example_row_fields option.map label_values)
  then have sizes: "text_sizes ?fig = [8, 10, 12, 8]"
    by (simp add: text_size_of_def float_less_def)
  have hover: "customdata ?fig = label_names"
    unfolding label_surviving
    by (simp add: build_chart_fields example_row_def label_names_def)
  from adaptive_label [OF label_chart h3] size name lab len
  have "text_sizes ?fig ! 0 = 8 \<and> text_labels ?fig ! 0 = ascii ''Alp...''"
    by auto
  with label_chart h2 size labels sizes hover show ?thesis by simp
qed

subsection \<open>The colour scale of the surviving rows\<close>

lemma set_present: "set (present col) = {v. Some v \<in> set col}"
  by (induction col) (auto simp: present_def split: option.splits)

lemma color_scale_Some:
  assumes "present col \<noteq> []"
  shows "color_scale col =
           Some (Min (set (present col)),
                 if Max (set (present col)) \<noteq> Min (set (present col))
                 then fl (Max (set (present col)) - Min (set (present col))) else 1)"
proof -
  from assms obtain v vs where vs: "present col = v # vs"
    by (cases "present col") auto
  from assms have ne: "col \<noteq> []"
    by (auto simp: present_def)
  have mx: "series_max col = Some (Max (set (present col)))"
    using Max.set_eq_fold [of v vs] by (simp add: series_max_def vs)
  have mn: "series_min col = Some (Min (set (present col)))"
    using Min.set_eq_fold [of v vs] by (simp add: series_min_def vs)
  show ?thesis
    by (simp add: color_scale_def ne mx mn)
qed

lemma present_surviving:
  assumes "surviving_rows df p s \<noteq> []"
  shows "present (map return_on_assets (surviving_rows df p s)) \<noteq> []"
proof -
  from assms obtain r where r: "r \<in> set (surviving_rows df p s)"
    by (cases "surviving_rows df p s") auto
  then obtain v where "return_on_assets r = Some v"
    using surviving_present by blast
  with r have "v \<in> set (present (map return_on_assets (surviving_rows df p s)))"
    by (force simp: set_present)
  then show ?thesis by auto
qed

subsection \<open>One entry per surviving row\<close>

text \<open>
  Claim C10. In a returned figure the lists of diameters, fill colours, border colours,
  label texts and font sizes all have the length of the list of surviving rows, which is
  not empty, and the entry at position \<open>i\<close> of each list is computed from the surviving
  row at position \<open>i\<close> (the colours also from the scale of the whole filtered set).
\<close>
theorem aligned_sequences:
  assumes "create_bubble_chart df p s = Inr (Some fig)"
  shows "0 < length (surviving_rows df p s)
       \<and> length (bubble_sizes fig) = length (surviving_rows df p s)
       \<and> length (colors fig) = length (surviving_rows df p s)
       \<and> length (edge_colors fig) = length (surviving_rows df p s)
       \<and> length (text_labels fig) = length (surviving_rows df p s)
       \<and> length (text_sizes fig) = length (surviving_rows df p s)
       \<and> (\<exists>min_val val_range.
            color_scale (map return_on_assets (surviving_rows df p s)) = Some (min_val, val_range)
            \<and> (\<forall>i < length (surviving_rows df p s).
                  bubble_sizes fig ! i = bubble_size_of (return_on_assets (surviving_rows df p s ! i))
                \<and> colors fig ! i
                    = point_color min_val val_range (return_on_assets (surviving_rows df p s ! i))
                \<and> edge_colors fig ! i
                    = point_edge_color min_val val_range (return_on_assets (surviving_rows df p s ! i))
                \<and> text_labels fig ! i
                    = text_label_of (bubble_size_of (return_on_assets (surviving_rows df p s ! i)))
                        (entity_name (surviving_rows df p s ! i))
                \<and> text_sizes fig ! i
                    = text_size_of (bubble_size_of (return_on_assets (surviving_rows df p s ! i)))))"
proof -
  let ?rows = "surviving_rows df p s"
  have fig: "fig = build_chart p ?rows" and ne: "?rows \<noteq> []"
    using assms by (rule create_bubble_chart_Some)+
  obtain min_val val_range
    where scale: "color_scale (map return_on_assets ?rows) = Some (min_val, val_range)"
    using color_scale_Some [OF present_surviving [OF ne]] by blast
  have lens: "length (bubble_sizes fig) = length ?rows" "length (colors fig) = length ?rows"
    "length (edge_colors fig) = length ?rows" "length (text_labels fig) = length ?rows"
    "length (text_sizes fig) = length ?rows"
    by (simp_all add: fig build_chart_fields color_list_def edge_color_list_def scale)
  have elems: "\<forall>i < length ?rows.
        bubble_sizes fig ! i = bubble_size_of (return_on_assets (?rows ! i))
      \<and> colors fig ! i = point_color min_val val_range (return_on_assets (?rows ! i))
      \<and> edge_colors fig ! i = point_edge_color min_val val_range (return_on_assets (?rows ! i))
      \<and> text_labels fig ! i
          = text_label_of (bubble_size_of (return_on_assets (?rows ! i))) (entity_name (?rows ! i))
      \<and> text_sizes fig ! i = text_size_of (bubble_size_of (return_on_assets (?rows ! i)))"
    by (simp add: fig build_chart_fields color_list_def edge_color_list_def scale)
  from ne have "0 < length ?rows" by simp
  with lens scale elems show ?thesis by blast
qed

theorem aligned_sequences_witness:
  "create_bubble_chart label_df (ascii ''P1'') label_names
     = Inr (Some (build_chart (ascii ''P1'') (surviving_rows label_df (ascii ''P1'') label_names)))
   \<and> length (surviving_rows label_df (ascii ''P1'') label_names) = 4
   \<and> length (bubble_sizes (build_chart (ascii ''P1'') (surviving_rows label_df (ascii ''P1'') label_names))) = 4
   \<and> length (colors (build_chart (ascii ''P1'') (surviving_rows label_df (ascii ''P1'') label_names))) = 4
   \<and> length (edge_colors (build_chart (ascii ''P1'') (surviving_rows label_df (ascii ''P1'') label_names))) = 4
   \<and> length (text_labels (build_chart (ascii ''P1'') (surviving_rows label_df (ascii ''P1'') label_names))) = 4
   \<and> length (text_sizes (build_chart (ascii ''P1'') (surviving_rows label_df (ascii ''P1'') label_names))) = 4"
proof -
  have n: "length (surviving_rows label_df (ascii ''P1'') label_names) = 4"
    by (simp add: label_surviving)
  from aligned_sequences [OF label_chart] n label_chart show ?thesis
    by simp
qed

subsection \<open>No data, or a chart of the complete matching rows\<close>

text \<open>
  Claim C4. On a table that has the five columns the encoder reads: an empty selection,
  a filter that matches no row, and a filter whose matching rows all miss asset turnover,
  net profit margin or return on assets each give \<open>None\<close> (no data); in every other case
  the result is the figure built from exactly the matching rows in which the three values
  are present, so an incomplete row is left out and the others are still charted.
\<close>
theorem no_data_or_chart:
  assumes "Period \<in> set (columns df)" and "EntityName \<in> set (columns df)"
    and "AssetTurnover \<in> set (columns df)" and "NetProfitMargin \<in> set (columns df)"
    and "ReturnOnAssets \<in> set (columns df)"
  shows "(s = [] \<longrightarrow> create_bubble_chart df p s = Inr None)
       \<and> ((\<forall>r \<in> set (rows df). \<not> matches p s r) \<longrightarrow> create_bubble_chart df p s = Inr None)
       \<and> ((\<forall>r \<in> set (rows df). matches p s r \<longrightarrow>
              asset_turnover r = NaN \<or> net_profit_margin r = None \<or> return_on_assets r = None)
            \<longrightarrow> create_bubble_chart df p s = Inr None)
       \<and> ((\<exists>r \<in> set (rows df). matches p s r \<and> asset_turnover r \<noteq> NaN
              \<and> net_profit_margin r \<noteq> None \<and> return_on_assets r \<noteq> None)
            \<longrightarrow> create_bubble_chart df p s
                 = Inr (Some (build_chart p
                     [r \<leftarrow> rows df. matches p s r \<and> asset_turnover r \<noteq> NaN
                        \<and> net_profit_margin r \<noteq> None \<and> return_on_assets r \<noteq> None])))"
proof -
  have surv: "surviving_rows df p s =
      [r \<leftarrow> rows df. matches p s r \<and> asset_turnover r \<noteq> NaN
         \<and> net_profit_margin r \<noteq> None \<and> return_on_assets r \<noteq> None]"
    by (simp add: surviving_rows_def no_missing_def conj_commute conj_left_commute cong: conj_cong)
  have res: "create_bubble_chart df p s =
      (if surviving_rows df p s = [] then Inr None
       else Inr (Some (build_chart p (surviving_rows df p s))))"
    using assms
    by (auto simp: create_bubble_chart_def surviving_rows_def Let_def filter_empty_conv)
  have empty_sel: "s = [] \<Longrightarrow> surviving_rows df p s = []"
    by (simp add: surviving_rows_def matches_def)
  have no_match: "\<forall>r \<in> set (rows df). \<not> matches p s r \<Longrightarrow> surviving_rows df p s = []"
    by (simp add: surviving_rows_def filter_empty_conv)
  have incomplete: "\<forall>r \<in> set (rows df). matches p s r \<longrightarrow>
        asset_turnover r = NaN \<or> net_profit_margin r = None \<or> return_on_assets r = None
      \<Longrightarrow> surviving_rows df p s = []"
    unfolding surv by (auto simp: filter_empty_conv)
  have some: "\<exists>r \<in> set (rows df). matches p s r \<and> asset_turnover r \<noteq> NaN
        \<and> net_profit_margin r \<noteq> None \<and> return_on_assets r \<noteq> None
      \<Longrightarrow> surviving_rows df p s \<noteq> []"
    unfolding surv by (auto simp: filter_empty_conv)
  show ?thesis
  proof (intro conjI impI)
    assume "s = []"
    then have "surviving_rows df p s = []"
      by (rule empty_sel)
    then show "create_bubble_chart df p s = Inr None"
      unfolding res by simp
  next
    assume "\<forall>r \<in> set (rows df). \<not> matches p s r"
    then show "create_bubble_chart df p s = Inr None"
      using no_match by (simp add: res)
  next
    assume "\<forall>r \<in> set (rows df). matches p s r \<longrightarrow>
        asset_turnover r = NaN \<or> net_profit_margin r = None \<or> return_on_assets r = None"
    then show "create_bubble_chart df p s = Inr None"
      using incomplete by (simp add: res)
  next
    assume "\<exists>r \<in> set (rows df). matches p s r \<and> asset_turnover r \<noteq> NaN
        \<and> net_profit_margin r \<noteq> None \<and> return_on_assets r \<noteq> None"
    then have "surviving_rows df p s \<noteq> []"
      by (rule some)
    then have "create_bubble_chart df p s = Inr (Some (build_chart p (surviving_rows df p s)))"
      by (simp add: res)
    then show "create_bubble_chart df p s
        = Inr (Some (build_chart p
            [r \<leftarrow> rows df. matches p s r \<and> asset_turnover r \<noteq> NaN
               \<and> net_profit_margin r \<noteq> None \<and> return_on_assets r \<noteq> None]))"
      by (simp only: surv)
  qed
qed

theorem no_data_or_chart_witness:
  "Period \<in> set (columns label_df) \<and> EntityName \<in> set (columns label_df)
   \<and> AssetTurnover \<in> set (columns label_df) \<and> NetProfitMargin \<in> set (columns label_df)
   \<and> ReturnOnAssets \<in> set (columns label_df)
   \<and> create_bubble_chart label_df (ascii ''P1'') [] = Inr None
   \<and> create_bubble_chart label_df (ascii ''P2'') label_names = Inr None
   \<and> create_bubble_chart label_df (ascii ''P1'') [ascii ''Alpha Corp'']
       = Inr (Some (build_chart (ascii ''P1'') [example_row ''Alpha Corp'' (Num 1) (Some 4)]))"
proof -
  have c: "Period \<in> set (columns label_df)" "EntityName \<in> set (columns label_df)"
    "AssetTurnover \<in> set (columns label_df)" "NetProfitMargin \<in> set (columns label_df)"
    "ReturnOnAssets \<in> set (columns label_df)"
    by (simp_all add: label_df_def all_columns_def)
  have a: "create_bubble_chart label_df (ascii ''P1'') [] = Inr None"
    using no_data_or_chart [OF c, of "[]" "ascii ''P1''"] by simp
  have "\<forall>r \<in> set (rows label_df). \<not> matches (ascii ''P2'') label_names r"
    by (simp add: label_df_def example_row_def matches_def ascii_def)
  then have b: "create_bubble_chart label_df (ascii ''P2'') label_names = Inr None"
    using no_data_or_chart [OF c, of label_names "ascii ''P2''"] by blast
  have ex: "\<exists>r \<in> set (rows label_df). matches (ascii ''P1'') [ascii ''Alpha Corp''] r
      \<and> asset_turnover r \<noteq> NaN \<and> net_profit_margin r \<noteq> None \<and> return_on_assets r \<noteq> None"
    by (simp add: label_df_def example_row_def matches_def ascii_def del: not_None_eq)
  have rows: "[r \<leftarrow> rows label_df. matches (ascii ''P1'') [ascii ''Alpha Corp''] r
      \<and> asset_turnover r \<noteq> NaN \<and> net_profit_margin r \<noteq> None \<and> return_on_assets r \<noteq> None]
      = [example_row ''Alpha Corp'' (Num 1) (Some 4)]"
    by (simp add: label_df_def example_row_def matches_def ascii_def del: not_None_eq)
  have d: "create_bubble_chart label_df (ascii ''P1'') [ascii ''Alpha Corp'']
       = Inr (Some (build_chart (ascii ''P1'') [example_row ''Alpha Corp'' (Num 1) (Some 4)]))"
    using no_data_or_chart [OF c, of "[ascii ''Alpha Corp'']" "ascii ''P1''"] ex
    unfolding rows by blast
  from c a b d show ?thesis by simp
qed

subsection \<open>Fill and border colours\<close>

lemma surviving_value:
  assumes "i < length (surviving_rows df p s)"
  obtains v where "return_on_assets (surviving_rows df p s ! i) = Some v"
    and "v \<in> set (present (map return_on_assets (surviving_rows df p s)))"
proof -
  from assms have "surviving_rows df p s ! i \<in> set (surviving_rows df p s)"
    by simp
  then obtain v where v: "return_on_assets (surviving_rows df p s ! i) = Some v"
    using surviving_present by blast
  with assms have "Some v \<in> set (map return_on_assets (surviving_rows df p s))"
    by (metis length_map nth_map nth_mem)
  then have "v \<in> set (present (map return_on_assets (surviving_rows df p s)))"
    by (simp add: set_present)
  with v that show ?thesis by blast
qed

lemma channels_spec:
  "red_of t = py_int (fl (255 * t))"
  "green_of t = py_int (fl (102 - fl (42 * t)))"
  "blue_of t = py_int (fl (255 - fl (195 * t)))"
  by (simp_all add: red_of_def green_of_def blue_of_def fl_minus)

lemma point_color_spec:
  "point_color (Min (set vals))
     (if Max (set vals) \<noteq> Min (set vals) then fl (Max (set vals) - Min (set vals)) else 1) (Some v)
   = spec_fill (spec_norm vals v)"
  by (simp add: point_color_def spec_fill_def spec_norm_def norm_of_def fill_rgba_def
      channels_spec Let_def)

lemma point_edge_color_spec:
  "point_edge_color (Min (set vals))
     (if Max (set vals) \<noteq> Min (set vals) then fl (Max (set vals) - Min (set vals)) else 1) (Some v)
   = spec_border (spec_norm vals v)"
  by (simp add: point_edge_color_def spec_border_def spec_norm_def norm_of_def edge_rgba_def
      channels_spec Let_def)

lemma spec_norm_degenerate:
  assumes "v \<in> set vals" and "Min (set vals) = Max (set vals)"
  shows "spec_norm vals v = 0"
proof -
  have "Min (set vals) \<le> v" and "v \<le> Max (set vals)"
    using assms(1) by simp_all
  with assms(2) have "v = Min (set vals)" by simp
  then show ?thesis by (simp add: spec_norm_def Let_def)
qed

text \<open>
  Claim C1. For the surviving row at position \<open>i\<close> of a returned figure, with \<open>v\<close> its
  return on assets and \<open>t\<close> the value of \<open>v\<close> normalised over the returns on assets of all
  surviving rows (range 1 when their minimum equals their maximum), the fill colour is
  \<open>rgba(r,g,b,0.70)\<close> with \<open>r\<close>, \<open>g\<close>, \<open>b\<close> the truncations of \<open>255 t\<close>, \<open>102 - 42 t\<close>,
  \<open>255 - 195 t\<close>, and the border colour has each channel 40 less, not below 0, with alpha
  0.95. When minimum and maximum agree (a single row included), \<open>t = 0\<close>.
\<close>
theorem fill_color_formula:
  assumes "create_bubble_chart df p s = Inr (Some fig)"
    and "i < length (surviving_rows df p s)"
  shows "\<exists>v. return_on_assets (surviving_rows df p s ! i) = Some v
           \<and> colors fig ! i
               = spec_fill (spec_norm (present (map return_on_assets (surviving_rows df p s))) v)
           \<and> edge_colors fig ! i
               = spec_border (spec_norm (present (map return_on_assets (surviving_rows df p s))) v)
           \<and> (Min (set (present (map return_on_assets (surviving_rows df p s))))
                = Max (set (present (map return_on_assets (surviving_rows df p s))))
              \<longrightarrow> spec_norm (present (map return_on_assets (surviving_rows df p s))) v = 0)"
proof -
  let ?rows = "surviving_rows df p s"
  let ?vals = "present (map return_on_assets ?rows)"
  have fig: "fig = build_chart p ?rows" and ne: "?rows \<noteq> []"
    using assms(1) by (rule create_bubble_chart_Some)+
  note scale = color_scale_Some [OF present_surviving [OF ne]]
  from assms(2) obtain v where v: "return_on_assets (?rows ! i) = Some v" and mem: "v \<in> set ?vals"
    by (rule surviving_value)
  have fill: "colors fig ! i = spec_fill (spec_norm ?vals v)"
    using assms(2) v
    by (simp add: fig build_chart_fields color_list_def scale point_color_spec
        del: not_None_eq)
  have border: "edge_colors fig ! i = spec_border (spec_norm ?vals v)"
    using assms(2) v
    by (simp add: fig build_chart_fields edge_color_list_def scale point_edge_color_spec
        del: not_None_eq)
  from v fill border spec_norm_degenerate [OF mem] show ?thesis by blast
qed

text \<open>The three rows with returns on assets 0.01, 0.05 and 0.09, evaluated.\<close>

lemma example_surviving:
  "surviving_rows example_df (ascii ''P1'') example_names
     = [example_row ''A'' (Num (1 / 2)) (Some 1),
        example_row ''B'' (Num (1 / 2)) (Some 5),
        example_row ''C'' (Num (1 / 2)) (Some 9)]"
  by (simp add: surviving_rows_def example_df_def example_row_def example_names_def matches_def
      no_missing_def ascii_def)

lemma example_chart:
  "create_bubble_chart example_df (ascii ''P1'') example_names
     = Inr (Some (build_chart (ascii ''P1'') (surviving_rows example_df (ascii ''P1'') example_names)))"
  unfolding example_surviving
  by (simp add: create_bubble_chart_def example_df_def all_columns_def example_row_def
      example_names_def matches_def no_missing_def ascii_def)

lemma example_values:
  "present (map return_on_assets (surviving_rows example_df (ascii ''P1'') example_names))
     = [fl (1 / 100), fl (5 / 100), fl (9 / 100)]"
  unfolding example_surviving
  by (simp add: example_row_fields present_def)

lemma example_norms:
  "spec_norm [fl (1 / 100), fl (5 / 100), fl (9 / 100)] (fl (1 / 100)) = 0"
  "spec_norm [fl (1 / 100), fl (5 / 100), fl (9 / 100)] (fl (5 / 100)) = 1 / 2"
  "spec_norm [fl (1 / 100), fl (5 / 100), fl (9 / 100)] (fl (9 / 100)) = 1"
  by code_simp+

lemma example_colors:
  "spec_fill (1 / 2) = ''rgba(127,81,157,0.70)''"
  "spec_border (1 / 2) = ''rgba(87,41,117,0.95)''"
  by code_simp+

theorem fill_color_formula_witness:
  "create_bubble_chart example_df (ascii ''P1'') example_names
     = Inr (Some (build_chart (ascii ''P1'') (surviving_rows example_df (ascii ''P1'') example_names)))
   \<and> length (surviving_rows example_df (ascii ''P1'') example_names) = 3
   \<and> present (map return_on_assets (surviving_rows example_df (ascii ''P1'') example_names))
       = [fl (1 / 100), fl (5 / 100), fl (9 / 100)]
   \<and> spec_norm [fl (1 / 100), fl (5 / 100), fl (9 / 100)] (fl (1 / 100)) = 0
   \<and> spec_norm [fl (1 / 100), fl (5 / 100), fl (9 / 100)] (fl (5 / 100)) = 1 / 2
   \<and> spec_norm [fl (1 / 100), fl (5 / 100), fl (9 / 100)] (fl (9 / 100)) = 1
   \<and> colors (build_chart (ascii ''P1'') (surviving_rows example_df (ascii ''P1'') example_names)) ! 1
       = ''rgba(127,81,157,0.70)''
   \<and> edge_colors (build_chart (ascii ''P1'') (surviving_rows example_df (ascii ''P1'') example_names)) ! 1
       = ''rgba(87,41,117,0.95)''"
proof -
  let ?rows = "surviving_rows example_df (ascii ''P1'') example_names"
  let ?fig = "build_chart (ascii ''P1'') ?rows"
  let ?vals = "[fl (1 / 100), fl (5 / 100), fl (9 / 100)]"
  have n: "length ?rows = 3"
    by (simp add: example_surviving)
  then have i: "1 < length ?rows"
    by simp
  have v: "return_on_assets (?rows ! 1) = Some (fl (5 / 100))"
    unfolding example_surviving by (simp only: nth_Cons_0 nth_Cons_Suc One_nat_def
        example_row_fields option.map)
  from fill_color_formula [OF example_chart i, unfolded example_values]
  obtain w where w: "return_on_assets (?rows ! 1) = Some w"
    and f: "colors ?fig ! 1 = spec_fill (spec_norm ?vals w)"
    and b: "edge_colors ?fig ! 1 = spec_border (spec_norm ?vals w)"
    by blast
  from w v have "w = fl (5 / 100)"
    by (simp only: option.inject)
  with f b have fb: "colors ?fig ! 1 = spec_fill (spec_norm ?vals (fl (5 / 100)))"
    "edge_colors ?fig ! 1 = spec_border (spec_norm ?vals (fl (5 / 100)))"
    by (simp_all only:)
  have c1: "colors ?fig ! 1 = ''rgba(127,81,157,0.70)''"
    by (simp only: fb example_norms example_colors)
  have c2: "edge_colors ?fig ! 1 = ''rgba(87,41,117,0.95)''"
    by (simp only: fb example_norms example_colors)
  show ?thesis
    by (intro conjI) (rule example_chart n example_values example_norms c1 c2)+
qed

subsection \<open>Colour channels stay in range\<close>

lemma norm_of_unit:
  assumes "v \<in> set vals"
  shows "0 \<le> norm_of (Min (set vals))
               (if Max (set vals) \<noteq> Min (set vals) then fl (Max (set vals) - Min (set vals)) else 1) v
       \<and> norm_of (Min (set vals))
               (if Max (set vals) \<noteq> Min (set vals) then fl (Max (set vals) - Min (set vals)) else 1) v
           \<le> 1"
proof -
  have lo: "Min (set vals) \<le> v" and hi: "v \<le> Max (set vals)"
    using assms by simp_all
  show ?thesis
  proof (cases "Max (set vals) = Min (set vals)")
    case True
    with lo hi have "v = Min (set vals)" by simp
    with True show ?thesis by (simp add: norm_of_def)
  next
    case False
    with lo hi have "0 < Max (set vals) - Min (set vals)" by simp
    then have pos: "0 < fl (Max (set vals) - Min (set vals))"
      by (rule fl_pos)
    from lo have "fl 0 \<le> fl (v - Min (set vals))"
      by (intro fl_mono) simp
    then have a: "0 \<le> fl (v - Min (set vals))"
      by simp
    from hi have b: "fl (v - Min (set vals)) \<le> fl (Max (set vals) - Min (set vals))"
      by (intro fl_mono) simp
    from a b pos
    have "0 \<le> fl (v - Min (set vals)) / fl (Max (set vals) - Min (set vals))"
      and "fl (v - Min (set vals)) / fl (Max (set vals) - Min (set vals)) \<le> 1"
      by simp_all
    then have "0 \<le> fl (fl (v - Min (set vals)) / fl (Max (set vals) - Min (set vals)))
        \<and> fl (fl (v - Min (set vals)) / fl (Max (set vals) - Min (set vals))) \<le> 1"
      by (intro fl_range) (simp_all add: fl_consts)
    with False show ?thesis
      by (simp add: norm_of_def)
  qed
qed

lemma py_int_range:
  assumes "of_int a \<le> q" and "q \<le> of_int b"
  shows "a \<le> py_int q \<and> py_int q \<le> b"
proof -
  have lo: "a \<le> \<lfloor>q\<rfloor>" and hi: "\<lceil>q\<rceil> \<le> b"
    using assms by (simp_all add: le_floor_iff ceiling_le_iff)
  have "\<lfloor>q\<rfloor> \<le> \<lceil>q\<rceil>"
    by (rule floor_le_ceiling)
  with lo hi have "\<lfloor>q\<rfloor> \<le> b" and "a \<le> \<lceil>q\<rceil>"
    by linarith+
  with lo hi show ?thesis
    by (simp add: py_int_def)
qed

lemma red_range:
  assumes "0 \<le> t" and "t \<le> 1"
  shows "0 \<le> red_of t \<and> red_of t \<le> 255"
proof -
  have "0 \<le> fl (255 * t) \<and> fl (255 * t) \<le> 255"
    using assms by (intro fl_range) (simp_all add: fl_consts)
  then show ?thesis
    using py_int_range [of 0 "fl (255 * t)" 255] by (simp add: channels_spec)
qed

lemma green_range:
  assumes "0 \<le> t" and "t \<le> 1"
  shows "60 \<le> green_of t \<and> green_of t \<le> 102"
proof -
  have "0 \<le> fl (42 * t) \<and> fl (42 * t) \<le> 42"
    using assms by (intro fl_range) (simp_all add: fl_consts)
  then have "60 \<le> 102 - fl (42 * t)" and "102 - fl (42 * t) \<le> 102"
    by simp_all
  then have "60 \<le> fl (102 - fl (42 * t)) \<and> fl (102 - fl (42 * t)) \<le> 102"
    by (intro fl_range) (simp_all add: fl_consts)
  then show ?thesis
    using py_int_range [of 60 "fl (102 - fl (42 * t))" 102] by (simp add: channels_spec)
qed

lemma blue_range:
  assumes "0 \<le> t" and "t \<le> 1"
  shows "60 \<le> blue_of t \<and> blue_of t \<le> 255"
proof -
  have "0 \<le> fl (195 * t) \<and> fl (195 * t) \<le> 195"
    using assms by (intro fl_range) (simp_all add: fl_consts)
  then have "60 \<le> 255 - fl (195 * t)" and "255 - fl (195 * t) \<le> 255"
    by simp_all
  then have "60 \<le> fl (255 - fl (195 * t)) \<and> fl (255 - fl (195 * t)) \<le> 255"
    by (intro fl_range) (simp_all add: fl_consts)
  then show ?thesis
    using py_int_range [of 60 "fl (255 - fl (195 * t))" 255] by (simp add: channels_spec)
qed

text \<open>
  Claim C9. For every point of a returned figure the normalised value \<open>t\<close> lies in
  \<open>[0, 1]\<close>, since it is taken against the minimum and maximum of the same filtered set
  with range 1 when they agree; so the fill channels are in range, \<open>r\<close> in \<open>[0, 255]\<close>,
  \<open>g\<close> in \<open>[60, 102]\<close>, \<open>b\<close> in \<open>[60, 255]\<close>, and the border channels in \<open>[0, 255]\<close>.
\<close>
theorem channels_in_range:
  assumes "create_bubble_chart df p s = Inr (Some fig)"
    and "i < length (surviving_rows df p s)"
  shows "\<exists>t. 0 \<le> t \<and> t \<le> 1
           \<and> colors fig ! i = fill_rgba (red_of t) (green_of t) (blue_of t)
           \<and> edge_colors fig ! i = edge_rgba (red_of t) (green_of t) (blue_of t)
           \<and> 0 \<le> red_of t \<and> red_of t \<le> 255
           \<and> 60 \<le> green_of t \<and> green_of t \<le> 102
           \<and> 60 \<le> blue_of t \<and> blue_of t \<le> 255
           \<and> 0 \<le> max (red_of t - 40) 0 \<and> max (red_of t - 40) 0 \<le> 255
           \<and> 0 \<le> max (green_of t - 40) 0 \<and> max (green_of t - 40) 0 \<le> 255
           \<and> 0 \<le> max (blue_of t - 40) 0 \<and> max (blue_of t - 40) 0 \<le> 255"
proof -
  let ?rows = "surviving_rows df p s"
  let ?vals = "present (map return_on_assets ?rows)"
  let ?mn = "Min (set ?vals)"
  let ?rng = "if Max (set ?vals) \<noteq> Min (set ?vals) then fl (Max (set ?vals) - Min (set ?vals)) else 1"
  have fig: "fig = build_chart p ?rows" and ne: "?rows \<noteq> []"
    using assms(1) by (rule create_bubble_chart_Some)+
  note scale = color_scale_Some [OF present_surviving [OF ne]]
  from assms(2) obtain v where v: "return_on_assets (?rows ! i) = Some v" and mem: "v \<in> set ?vals"
    by (rule surviving_value)
  define t where "t = norm_of ?mn ?rng v"
  have unit: "0 \<le> t" "t \<le> 1"
    using norm_of_unit [OF mem] by (simp_all add: t_def)
  have fill: "colors fig ! i = fill_rgba (red_of t) (green_of t) (blue_of t)"
    using assms(2) v
    by (simp add: fig build_chart_fields color_list_def scale point_color_def t_def Let_def
        del: not_None_eq)
  have border: "edge_colors fig ! i = edge_rgba (red_of t) (green_of t) (blue_of t)"
    using assms(2) v
    by (simp add: fig build_chart_fields edge_color_list_def scale point_edge_color_def t_def Let_def
        del: not_None_eq)
  note r = red_range [OF unit] and g = green_range [OF unit] and b = blue_range [OF unit]
  have edges: "0 \<le> max (red_of t - 40) 0 \<and> max (red_of t - 40) 0 \<le> 255
      \<and> 0 \<le> max (green_of t - 40) 0 \<and> max (green_of t - 40) 0 \<le> 255
      \<and> 0 \<le> max (blue_of t - 40) 0 \<and> max (blue_of t - 40) 0 \<le> 255"
    using r g b by simp
  from unit fill border r g b edges show ?thesis
    by blast
qed

theorem channels_in_range_witness:
  "create_bubble_chart example_df (ascii ''P1'') example_names
     = Inr (Some (build_chart (ascii ''P1'') (surviving_rows example_df (ascii ''P1'') example_names)))
   \<and> 1 < length (surviving_rows example_df (ascii ''P1'') example_names)
   \<and> (\<exists>t. 0 \<le> t \<and> t \<le> 1
         \<and> colors (build_chart (ascii ''P1'') (surviving_rows example_df (ascii ''P1'') example_names)) ! 1
             = fill_rgba (red_of t) (green_of t) (blue_of t)
         \<and> 0 \<le> red_of t \<and> red_of t \<le> 255
         \<and> 60 \<le> green_of t \<and> green_of t \<le> 102
         \<and> 60 \<le> blue_of t \<and> blue_of t \<le> 255)"
proof -
  have i: "1 < length (surviving_rows example_df (ascii ''P1'') example_names)"
    by (simp add: example_surviving)
  from channels_in_range [OF example_chart i] example_chart i show ?thesis
    by blast
qed

subsection \<open>\<open>preprocess_data\<close>: the derived columns\<close>

lemma rows_assign [simp]: "rows (assign c f df) = map f (rows df)"
  by (simp add: assign_def)

lemma set_columns_assign [simp]: "set (columns (assign c f df)) = insert c (set (columns df))"
  by (auto simp: assign_def)

lemma to_numeric_None:
  "to_numeric parse c = None \<longleftrightarrow> c = NaN \<or> (\<exists>s. c = Str s \<and> parse s = None)"
  by (cases c) (simp_all add: to_numeric_def)

lemma preprocess_row:
  assumes "NetProfitMarginRaw \<in> set (columns df)" and "ReturnOnAssetsRaw \<in> set (columns df)"
    and "i < length (rows df)"
  shows "net_profit_margin (rows (preprocess_data parse num_str df) ! i)
           = map_option (\<lambda>q. fl (q / 100)) (to_numeric parse (net_profit_margin_raw (rows df ! i)))"
    and "return_on_assets (rows (preprocess_data parse num_str df) ! i)
           = map_option (\<lambda>q. fl (q / 100)) (to_numeric parse (return_on_assets_raw (rows df ! i)))"
    and "net_profit_margin_raw (rows (preprocess_data parse num_str df) ! i)
           = net_profit_margin_raw (rows df ! i)"
    and "return_on_assets_raw (rows (preprocess_data parse num_str df) ! i)
           = return_on_assets_raw (rows df ! i)"
  using assms by (simp_all add: preprocess_data_def Let_def)

lemma preprocess_shape:
  "length (rows (preprocess_data parse num_str df)) = length (rows df)"
  "NetProfitMarginRaw \<in> set (columns df)
     \<Longrightarrow> NetProfitMargin \<in> set (columns (preprocess_data parse num_str df))"
  "ReturnOnAssetsRaw \<in> set (columns df)
     \<Longrightarrow> ReturnOnAssets \<in> set (columns (preprocess_data parse num_str df))"
  by (simp_all add: preprocess_data_def Let_def)

text \<open>
  Claim C5. On a table that has the two raw percentage columns, \<open>preprocess_data\<close>
  keeps every row and adds the two derived columns; in every row the derived value is
  the raw value divided by 100 (a float division) when the raw cell is a number or a
  text that reads as a number, and it is missing exactly when the raw cell is missing or
  is a text that does not read as a number. The function has no failing case: a cell
  that does not parse only makes its own derived value missing.
\<close>
theorem derived_fraction:
  assumes "NetProfitMarginRaw \<in> set (columns df)" and "ReturnOnAssetsRaw \<in> set (columns df)"
    and "i < length (rows df)"
  shows "length (rows (preprocess_data parse num_str df)) = length (rows df)
       \<and> NetProfitMargin \<in> set (columns (preprocess_data parse num_str df))
       \<and> ReturnOnAssets \<in> set (columns (preprocess_data parse num_str df))
       \<and> (\<forall>q. net_profit_margin_raw (rows df ! i) = Num q
              \<longrightarrow> net_profit_margin (rows (preprocess_data parse num_str df) ! i) = Some (fl (q / 100)))
       \<and> (\<forall>s q. net_profit_margin_raw (rows df ! i) = Str s \<and> parse s = Some q
              \<longrightarrow> net_profit_margin (rows (preprocess_data parse num_str df) ! i) = Some (fl (q / 100)))
       \<and> (net_profit_margin (rows (preprocess_data parse num_str df) ! i) = None
            \<longleftrightarrow> net_profit_margin_raw (rows df ! i) = NaN
                \<or> (\<exists>s. net_profit_margin_raw (rows df ! i) = Str s \<and> parse s = None))
       \<and> (\<forall>q. return_on_assets_raw (rows df ! i) = Num q
              \<longrightarrow> return_on_assets (rows (preprocess_data parse num_str df) ! i) = Some (fl (q / 100)))
       \<and> (\<forall>s q. return_on_assets_raw (rows df ! i) = Str s \<and> parse s = Some q
              \<longrightarrow> return_on_assets (rows (preprocess_data parse num_str df) ! i) = Some (fl (q / 100)))
       \<and> (return_on_assets (rows (preprocess_data parse num_str df) ! i) = None
            \<longleftrightarrow> return_on_assets_raw (rows df ! i) = NaN
                \<or> (\<exists>s. return_on_assets_raw (rows df ! i) = Str s \<and> parse s = None))"
proof -
  note row = preprocess_row [OF assms, of parse num_str]
  have a: "\<forall>q. net_profit_margin_raw (rows df ! i) = Num q
      \<longrightarrow> net_profit_margin (rows (preprocess_data parse num_str df) ! i) = Some (fl (q / 100))"
    by (simp add: row(1) to_numeric_def)
  have b: "\<forall>s q. net_profit_margin_raw (rows df ! i) = Str s \<and> parse s = Some q
      \<longrightarrow> net_profit_margin (rows (preprocess_data parse num_str df) ! i) = Some (fl (q / 100))"
    by (simp add: row(1) to_numeric_def)
  have c: "net_profit_margin (rows (preprocess_data parse num_str df) ! i) = None
      \<longleftrightarrow> net_profit_margin_raw (rows df ! i) = NaN
          \<or> (\<exists>s. net_profit_margin_raw (rows df ! i) = Str s \<and> parse s = None)"
    by (simp add: row(1) to_numeric_None)
  have d: "\<forall>q. return_on_assets_raw (rows df ! i) = Num q
      \<longrightarrow> return_on_assets (rows (preprocess_data parse num_str df) ! i) = Some (fl (q / 100))"
    by (simp add: row(2) to_numeric_def)
  have e: "\<forall>s q. return_on_assets_raw (rows df ! i) = Str s \<and> parse s = Some q
      \<longrightarrow> return_on_assets (rows (preprocess_data parse num_str df) ! i) = Some (fl (q / 100))"
    by (simp add: row(2) to_numeric_def)
  have f: "return_on_assets (rows (preprocess_data parse num_str df) ! i) = None
      \<longleftrightarrow> return_on_assets_raw (rows df ! i) = NaN
          \<or> (\<exists>s. return_on_assets_raw (rows df ! i) = Str s \<and> parse s = None)"
    by (simp add: row(2) to_numeric_None)
  from preprocess_shape [where parse = parse and num_str = num_str and df = df]
    assms(1,2) a b c d e f show ?thesis
    by blast
qed

text \<open>The table \<open>raw_df\<close>, preprocessed.\<close>

lemma raw_columns_present:
  "NetProfitMarginRaw \<in> set (columns raw_df)" "ReturnOnAssetsRaw \<in> set (columns raw_df)"
  by (simp_all add: raw_df_def raw_columns_def)

lemma raw_cells:
  "length (rows raw_df) = 3"
  "net_profit_margin_raw (rows raw_df ! 0) = Num (fl (1234 / 100))"
  "net_profit_margin_raw (rows raw_df ! 1) = Str (ascii ''12.5'')"
  "net_profit_margin_raw (rows raw_df ! 2) = NaN"
  "return_on_assets_raw (rows raw_df ! 1) = Str (ascii ''n/a'')"
  by (simp_all add: raw_df_def raw_row_def)

lemma example_parse_values:
  "example_parse (ascii ''12.5'') = Some (25 / 2)"
  "example_parse (ascii ''n/a'') = None"
  by (simp_all add: example_parse_def ascii_def)

theorem derived_fraction_witness:
  "NetProfitMarginRaw \<in> set (columns raw_df) \<and> ReturnOnAssetsRaw \<in> set (columns raw_df)
   \<and> length (rows raw_df) = 3
   \<and> length (rows (preprocess_data example_parse example_num_str raw_df)) = 3
   \<and> net_profit_margin (rows (preprocess_data example_parse example_num_str raw_df) ! 0)
       = Some (fl (fl (1234 / 100) / 100))
   \<and> net_profit_margin (rows (preprocess_data example_parse example_num_str raw_df) ! 1)
       = Some (fl (25 / 2 / 100))
   \<and> net_profit_margin (rows (preprocess_data example_parse example_num_str raw_df) ! 2) = None
   \<and> return_on_assets (rows (preprocess_data example_parse example_num_str raw_df) ! 1) = None"
proof -
  have i0: "0 < length (rows raw_df)" and i1: "1 < length (rows raw_df)"
    and i2: "2 < length (rows raw_df)"
    by (simp_all add: raw_cells)
  note t0 = derived_fraction [OF raw_columns_present i0, of example_parse example_num_str]
  note t1 = derived_fraction [OF raw_columns_present i1, of example_parse example_num_str]
  note t2 = derived_fraction [OF raw_columns_present i2, of example_parse example_num_str]
  have n: "length (rows (preprocess_data example_parse example_num_str raw_df)) = 3"
    using t0 by (simp only: raw_cells)
  have a: "net_profit_margin (rows (preprocess_data example_parse example_num_str raw_df) ! 0)
      = Some (fl (fl (1234 / 100) / 100))"
    using t0 raw_cells(2) by blast
  have b: "net_profit_margin (rows (preprocess_data example_parse example_num_str raw_df) ! 1)
      = Some (fl (25 / 2 / 100))"
    using t1 raw_cells(3) example_parse_values(1) by blast
  have c: "net_profit_margin (rows (preprocess_data example_parse example_num_str raw_df) ! 2) = None"
    using t2 raw_cells(4) by blast
  have d: "return_on_assets (rows (preprocess_data example_parse example_num_str raw_df) ! 1) = None"
    using t1 raw_cells(5) example_parse_values(2) by blast
  show ?thesis
    by (intro conjI) (rule raw_columns_present raw_cells n a b c d)+
qed

subsection \<open>\<open>preprocess_data\<close> twice\<close>

lemma to_numeric_float_cell [simp]:
  "to_numeric parse (float_cell (to_numeric parse c)) = to_numeric parse c"
  by (cases "to_numeric parse c") (simp_all add: float_cell_def to_numeric_def)

lemma astype_str_Str [simp]: "astype_str num_str (Str s) = s"
  by (simp add: astype_str_def)

text \<open>
  Claim C6. \<open>preprocess_data\<close> applied to its own result gives that result again, for
  every table and whatever the library's reading of texts and printing of numbers are:
  the derived columns are computed again from the raw columns, which it never changes,
  the turnover column is numeric already and the period column is text already. The
  result is a function of the table alone.
\<close>
theorem preprocess_idempotent:
  "preprocess_data parse num_str (preprocess_data parse num_str df)
     = preprocess_data parse num_str df"
proof -
  have cols: "columns (preprocess_data parse num_str (preprocess_data parse num_str df))
      = columns (preprocess_data parse num_str df)"
    by (simp add: preprocess_data_def Let_def assign_def)
  have rws: "rows (preprocess_data parse num_str (preprocess_data parse num_str df))
      = rows (preprocess_data parse num_str df)"
    by (simp add: preprocess_data_def Let_def)
  from cols rws show ?thesis
    by (rule dataframe.equality) simp
qed

subsection \<open>The default period\<close>

lemma set_unique [simp]: "set (unique xs) = set xs"
  by (simp add: unique_def)

lemma set_sorted_periods: "set (sorted_periods df) = set (period_texts df)"
  by (simp add: sorted_periods_def)

lemma sorted_le_last:
  assumes "sorted ys" and "y \<in> set ys"
  shows "y \<le> last ys"
  using assms by (induction ys) auto

lemma hd_sorted_periods:
  assumes "period_texts df \<noteq> []"
  shows "hd (sorted_periods df) = Max (set (period_texts df))"
proof -
  let ?ys = "sort (unique (period_texts df))"
  from assms have "set ?ys \<noteq> {}"
    by simp
  then have ne: "?ys \<noteq> []"
    by (simp del: set_sort)
  have "sorted ?ys"
    by simp
  then have "\<forall>y \<in> set ?ys. y \<le> last ?ys"
    by (blast intro: sorted_le_last)
  moreover have "last ?ys \<in> set ?ys"
    using ne by (rule last_in_set)
  ultimately have "Max (set ?ys) = last ?ys"
    by (intro Max_eqI) simp_all
  moreover have "hd (rev ?ys) = last ?ys"
    using ne by (simp add: hd_rev)
  ultimately show ?thesis
    by (simp add: sorted_periods_def)
qed

lemma index_of_nth:
  assumes "a \<in> set xs"
  shows "xs ! index_of a xs = a"
  using assms by (induction xs) (auto simp: index_of_def)

lemma default_period_cases:
  assumes "Period \<in> set (columns df)" and "period_texts df \<noteq> []"
  shows "default_period df
           = Inr (if ascii ''20241231'' \<in> set (period_texts df) then ascii ''20241231''
                  else Max (set (period_texts df)))"
proof -
  from assms(2) have "set (sorted_periods df) \<noteq> {}"
    by (simp add: set_sorted_periods)
  then obtain q qs where ps: "sorted_periods df = q # qs"
    by (cases "sorted_periods df") auto
  with hd_sorted_periods [OF assms(2)] have "q = Max (set (period_texts df))"
    by simp
  with assms(1) ps show ?thesis
    using set_sorted_periods [of df] by (simp add: default_period_def Let_def)
qed

lemma initial_period_default:
  assumes "Period \<in> set (columns df)" and "period_texts df \<noteq> []"
  shows "initial_period df = default_period df"
proof -
  let ?d = "if ascii ''20241231'' \<in> set (period_texts df) then ascii ''20241231''
            else Max (set (period_texts df))"
  have d: "default_period df = Inr ?d"
    using assms by (rule default_period_cases)
  have "Max (set (period_texts df)) \<in> set (period_texts df)"
    using assms(2) by (intro Max_in) simp_all
  then have "?d \<in> set (sorted_periods df)"
    by (simp add: set_sorted_periods)
  then show ?thesis
    by (simp add: initial_period_def d index_of_nth Let_def)
qed

lemma period_texts_preprocess:
  assumes "Period \<in> set (columns df)"
  shows "period_texts (preprocess_data parse num_str df)
           = map (\<lambda>r. astype_str num_str (period r)) (rows df)"
    and "Period \<in> set (columns (preprocess_data parse num_str df))"
proof -
  have "map period (rows (preprocess_data parse num_str df))
      = map (\<lambda>r. Str (astype_str num_str (period r))) (rows df)"
    using assms by (simp add: preprocess_data_def Let_def comp_def)
  then show "period_texts (preprocess_data parse num_str df)
      = map (\<lambda>r. astype_str num_str (period r)) (rows df)"
    by (simp add: period_texts_def comp_def)
  show "Period \<in> set (columns (preprocess_data parse num_str df))"
    using assms by (simp add: preprocess_data_def Let_def)
qed

text \<open>
  Claim C8, as the program has it. For a loaded table with a period column and at least
  one row, the period that the selector shows first is the fixed period \<open>20241231\<close>
  whenever the table has that period, whether or not the table also has later periods,
  and otherwise the greatest period text of the table in the order of Python strings
  (by code points, a proper prefix first); it is in both cases a period of the table.
\<close>
theorem default_period_rule:
  assumes "Period \<in> set (columns df)" and "rows df \<noteq> []"
  shows "initial_period (preprocess_data parse num_str df)
           = default_period (preprocess_data parse num_str df)
       \<and> (ascii ''20241231'' \<in> set (period_texts (preprocess_data parse num_str df))
            \<longrightarrow> default_period (preprocess_data parse num_str df) = Inr (ascii ''20241231''))
       \<and> (ascii ''20241231'' \<notin> set (period_texts (preprocess_data parse num_str df))
            \<longrightarrow> default_period (preprocess_data parse num_str df)
                 = Inr (Max (set (period_texts (preprocess_data parse num_str df)))))
       \<and> (\<exists>d. default_period (preprocess_data parse num_str df) = Inr d
              \<and> d \<in> set (period_texts (preprocess_data parse num_str df)))"
proof -
  let ?df = "preprocess_data parse num_str df"
  note pre = period_texts_preprocess [OF assms(1), of parse num_str]
  from assms(2) have ne: "period_texts ?df \<noteq> []"
    by (simp add: pre(1))
  note d = default_period_cases [OF pre(2) ne]
  have "Max (set (period_texts ?df)) \<in> set (period_texts ?df)"
    using ne by (intro Max_in) simp_all
  with d initial_period_default [OF pre(2) ne] show ?thesis
    by auto
qed

text \<open>The tables \<open>later_df\<close> and \<open>earlier_df\<close>, evaluated.\<close>

lemma example_periods:
  "period_texts (preprocess_data example_parse example_num_str later_df)
     = [ascii ''20231231'', ascii ''20241231'', ascii ''20251231'']"
  "period_texts (preprocess_data example_parse example_num_str earlier_df)
     = [ascii ''20221231'', ascii ''20231231'', ascii ''20221231'']"
  "Period \<in> set (columns later_df)" "rows later_df \<noteq> []"
  "Period \<in> set (columns earlier_df)" "rows earlier_df \<noteq> []"
  by (simp_all add: period_texts_preprocess later_df_def earlier_df_def raw_columns_def
      raw_row_def astype_str_def)

lemma example_period_order:
  "Max (set [ascii ''20231231'', ascii ''20241231'', ascii ''20251231'']) = ascii ''20251231''"
  "Max (set [ascii ''20221231'', ascii ''20231231'', ascii ''20221231'']) = ascii ''20231231''"
  "ascii ''20241231'' \<in> set [ascii ''20231231'', ascii ''20241231'', ascii ''20251231'']"
  "ascii ''20241231'' \<notin> set [ascii ''20221231'', ascii ''20231231'', ascii ''20221231'']"
  "ascii ''20241231'' \<noteq> ascii ''20251231''"
  by (simp_all add: ascii_def)

theorem default_period_rule_witness:
  "Period \<in> set (columns earlier_df) \<and> rows earlier_df \<noteq> []
   \<and> ascii ''20241231'' \<notin> set (period_texts (preprocess_data example_parse example_num_str earlier_df))
   \<and> default_period (preprocess_data example_parse example_num_str earlier_df)
       = Inr (ascii ''20231231'')
   \<and> initial_period (preprocess_data example_parse example_num_str earlier_df)
       = Inr (ascii ''20231231'')"
proof -
  note t = default_period_rule [OF example_periods(5,6), of example_parse example_num_str]
  have a: "ascii ''20241231''
      \<notin> set (period_texts (preprocess_data example_parse example_num_str earlier_df))"
    by (simp only: example_periods example_period_order not_False_eq_True)
  with t have "default_period (preprocess_data example_parse example_num_str earlier_df)
      = Inr (Max (set (period_texts (preprocess_data example_parse example_num_str earlier_df))))"
    by blast
  then have b: "default_period (preprocess_data example_parse example_num_str earlier_df)
      = Inr (ascii ''20231231'')"
    by (simp only: example_periods example_period_order)
  from t b have c: "initial_period (preprocess_data example_parse example_num_str earlier_df)
      = Inr (ascii ''20231231'')"
    by simp
  show ?thesis
    by (intro conjI) (rule example_periods a b c)+
qed

text \<open>
  The claim as worded fails on a table with the periods 20231231, 20241231 and
  20251231: the most recent period of the table is 20251231, and the selector starts at
  20241231.
\<close>
theorem default_period_not_latest:
  "Max (set (period_texts (preprocess_data example_parse example_num_str later_df)))
     = ascii ''20251231''
   \<and> default_period (preprocess_data example_parse example_num_str later_df)
       = Inr (ascii ''20241231'')
   \<and> initial_period (preprocess_data example_parse example_num_str later_df)
       = Inr (ascii ''20241231'')
   \<and> ascii ''20241231'' \<noteq> ascii ''20251231''"
proof -
  let ?df = "preprocess_data example_parse example_num_str later_df"
  have ne: "period_texts ?df \<noteq> []"
    by (simp add: example_periods)
  have col: "Period \<in> set (columns ?df)"
    using example_periods(3) by (rule period_texts_preprocess)
  have m: "Max (set (period_texts ?df)) = ascii ''20251231''"
    by (simp only: example_periods example_period_order)
  have "ascii ''20241231'' \<in> set (period_texts ?df)"
    by (simp only: example_periods example_period_order)
  with default_period_cases [OF col ne]
  have d: "default_period ?df = Inr (ascii ''20241231'')"
    by simp
  with initial_period_default [OF col ne]
  have i: "initial_period ?df = Inr (ascii ''20241231'')"
    by simp
  show ?thesis
    by (intro conjI) (rule m d i example_period_order)+
qed

subsection \<open>The detail table\<close>

lemma str_nat_digits: "set (str_nat n) \<subseteq> set ''0123456789''"
proof (induction n rule: str_nat.induct)
  case (1 n)
  have digit: "''0123456789'' ! (n mod 10) \<in> set ''0123456789''"
    by (rule nth_mem) simp
  show ?case
  proof (cases "n < 10")
    case True
    with digit show ?thesis
      by (simp add: str_nat.simps [of n])
  next
    case False
    with "1.IH" digit show ?thesis
      by (simp add: str_nat.simps [of n])
  qed
qed

lemma length_str_nat:
  assumes "n < 10 ^ d" and "0 < d"
  shows "length (str_nat n) \<le> d"
  using assms
proof (induction n arbitrary: d rule: str_nat.induct)
  case (1 n)
  show ?case
  proof (cases "n < 10")
    case True
    with "1.prems" show ?thesis
      by (simp add: str_nat.simps [of n])
  next
    case False
    from "1.prems"(2) obtain e where d: "d = Suc e"
      by (cases d) auto
    with False "1.prems"(1) have e: "0 < e"
      by (cases e) auto
    from "1.prems"(1) d have "n div 10 < 10 ^ e"
      by (simp add: less_mult_imp_div_less)
    with "1.IH" False e have "length (str_nat (n div 10)) \<le> e"
      by simp
    with False d show ?thesis
      by (simp add: str_nat.simps [of n])
  qed
qed

lemma decimals_append:
  assumes "CHR ''.'' \<notin> set xs"
  shows "decimals (xs @ CHR ''.'' # ys) = ys"
proof -
  from assms have "takeWhile (\<lambda>c. c \<noteq> CHR ''.'') (xs @ CHR ''.'' # ys) = xs"
    by (induction xs) auto
  then show ?thesis
    by (simp add: decimals_def)
qed

lemma format_fixed_decimals:
  assumes "0 < d"
  shows "length (decimals (format_fixed d q)) = d \<and> all_digits (decimals (format_fixed d q))"
proof -
  define n where "n = nat (round_half_even (\<bar>q\<bar> * 10 ^ d))"
  define ip where "ip = (if q < 0 then ''-'' else []) @ str_nat (n div 10 ^ d)"
  define fp where "fp = zero_pad d (str_nat (n mod 10 ^ d))"
  have f: "format_fixed d q = ip @ CHR ''.'' # fp"
    by (simp add: format_fixed_def Let_def n_def ip_def fp_def)
  have "CHR ''.'' \<notin> set (str_nat (n div 10 ^ d))"
    using str_nat_digits [of "n div 10 ^ d"] by auto
  then have "CHR ''.'' \<notin> set ip"
    by (simp add: ip_def)
  then have dec: "decimals (format_fixed d q) = fp"
    unfolding f by (rule decimals_append)
  have "n mod 10 ^ d < 10 ^ d"
    by simp
  then have "length (str_nat (n mod 10 ^ d)) \<le> d"
    using assms by (rule length_str_nat)
  then have len: "length fp = d"
    by (simp add: fp_def zero_pad_def)
  have "set fp \<subseteq> set ''0123456789''"
    using str_nat_digits [of "n mod 10 ^ d"] by (auto simp: fp_def zero_pad_def)
  then have "all_digits fp"
    unfolding all_digits_def list_all_iff by blast
  with dec len show ?thesis
    by simp
qed

lemma display_all_nth:
  assumes "display_all rs = Inr ds"
  shows "length ds = length rs \<and> (\<forall>i < length rs. display_of (rs ! i) = Inr (ds ! i))"
  using assms
proof (induction rs arbitrary: ds)
  case Nil
  then show ?case by simp
next
  case (Cons r rs)
  from Cons.prems obtain d ds' where d: "display_of r = Inr d"
    and ds': "display_all rs = Inr ds'" and ds: "ds = d # ds'"
    by (auto split: sum.splits)
  from Cons.IH [OF ds'] d ds show ?case
    by (auto simp: nth_Cons split: nat.splits)
qed

lemma display_of_fields:
  assumes "display_of r = Inr d"
  shows "shown_net_profit_margin d = percent_text (net_profit_margin r)"
    and "shown_return_on_assets d = percent_text (return_on_assets r)"
    and "ratio_text (asset_turnover r) = Inr (shown_asset_turnover d)"
  using assms by (auto simp: display_of_def split: sum.splits)

lemma display_data_Some:
  assumes "display_data df p s = Inr (Some ds)"
  shows "display_all (detail_rows df p s) = Inr ds"
  using assms
  by (auto simp: display_data_def detail_rows_def Let_def split: if_splits sum.splits)

text \<open>
  Claim C7. When the detail table is shown, it has one row per row that matches the
  period and the selection, in order. In each row a present net profit margin or return
  on assets \<open>x\<close> is shown as the float product \<open>x * 100\<close> in fixed-point notation followed
  by \<open>%\<close>, with exactly 2 digits after the point; a present asset turnover is shown in
  fixed-point notation with exactly 3 digits after the point; and a missing value in
  any of the three columns is shown as \<open>N/A\<close>.
\<close>
theorem detail_table_format:
  assumes "display_data df p s = Inr (Some ds)" and "i < length ds"
  shows "length ds = length (detail_rows df p s)
       \<and> (net_profit_margin (detail_rows df p s ! i) = None
            \<longrightarrow> shown_net_profit_margin (ds ! i) = ''N/A'')
       \<and> (\<forall>x. net_profit_margin (detail_rows df p s ! i) = Some x
              \<longrightarrow> shown_net_profit_margin (ds ! i) = format_fixed 2 (fl (x * 100)) @ ''%''
                  \<and> length (decimals (format_fixed 2 (fl (x * 100)))) = 2
                  \<and> all_digits (decimals (format_fixed 2 (fl (x * 100)))))
       \<and> (return_on_assets (detail_rows df p s ! i) = None
            \<longrightarrow> shown_return_on_assets (ds ! i) = ''N/A'')
       \<and> (\<forall>x. return_on_assets (detail_rows df p s ! i) = Some x
              \<longrightarrow> shown_return_on_assets (ds ! i) = format_fixed 2 (fl (x * 100)) @ ''%''
                  \<and> length (decimals (format_fixed 2 (fl (x * 100)))) = 2
                  \<and> all_digits (decimals (format_fixed 2 (fl (x * 100)))))
       \<and> (asset_turnover (detail_rows df p s ! i) = NaN
            \<longrightarrow> shown_asset_turnover (ds ! i) = ''N/A'')
       \<and> (\<forall>x. asset_turnover (detail_rows df p s ! i) = Num x
              \<longrightarrow> shown_asset_turnover (ds ! i) = format_fixed 3 x
                  \<and> length (decimals (format_fixed 3 x)) = 3
                  \<and> all_digits (decimals (format_fixed 3 x)))"
proof -
  let ?r = "detail_rows df p s ! i"
  note all = display_all_nth [OF display_data_Some [OF assms(1)]]
  from all have len: "length ds = length (detail_rows df p s)"
    by simp
  with all assms(2) have "display_of ?r = Inr (ds ! i)"
    by simp
  note f = display_of_fields [OF this]
  have two: "\<And>q. length (decimals (format_fixed 2 q)) = 2 \<and> all_digits (decimals (format_fixed 2 q))"
    by (rule format_fixed_decimals) simp
  have three: "\<And>q. length (decimals (format_fixed 3 q)) = 3 \<and> all_digits (decimals (format_fixed 3 q))"
    by (rule format_fixed_decimals) simp
  have a: "net_profit_margin ?r = None \<longrightarrow> shown_net_profit_margin (ds ! i) = ''N/A''"
    by (simp add: f(1) percent_text_def)
  have b: "\<forall>x. net_profit_margin ?r = Some x
      \<longrightarrow> shown_net_profit_margin (ds ! i) = format_fixed 2 (fl (x * 100)) @ ''%''
          \<and> length (decimals (format_fixed 2 (fl (x * 100)))) = 2
          \<and> all_digits (decimals (format_fixed 2 (fl (x * 100))))"
    using two by (simp add: f(1) percent_text_def)
  have c: "return_on_assets ?r = None \<longrightarrow> shown_return_on_assets (ds ! i) = ''N/A''"
    by (simp add: f(2) percent_text_def)
  have d: "\<forall>x. return_on_assets ?r = Some x
      \<longrightarrow> shown_return_on_assets (ds ! i) = format_fixed 2 (fl (x * 100)) @ ''%''
          \<and> length (decimals (format_fixed 2 (fl (x * 100)))) = 2
          \<and> all_digits (decimals (format_fixed 2 (fl (x * 100))))"
    using two by (simp add: f(2) percent_text_def)
  have e: "asset_turnover ?r = NaN \<longrightarrow> shown_asset_turnover (ds ! i) = ''N/A''"
    using f(3) by (auto simp: ratio_text_def)
  have g: "\<forall>x. asset_turnover ?r = Num x
      \<longrightarrow> shown_asset_turnover (ds ! i) = format_fixed 3 x
          \<and> length (decimals (format_fixed 3 x)) = 3
          \<and> all_digits (decimals (format_fixed 3 x))"
    using f(3) three by (auto simp: ratio_text_def)
  from len a b c d e g show ?thesis
    by blast
qed

text \<open>The table \<open>detail_df\<close>, formatted.\<close>

lemma detail_row_fields:
  "entity_name (detail_row name margin turnover roa) = ascii name"
  "period (detail_row name margin turnover roa) = Str (ascii ''P1'')"
  "asset_turnover (detail_row name margin turnover roa) = turnover"
  "net_profit_margin (detail_row name margin turnover roa) = margin"
  "return_on_assets (detail_row name margin turnover roa) = roa"
  by (simp_all add: detail_row_def)

lemma detail_matching:
  "detail_rows detail_df (ascii ''P1'') example_names
     = [detail_row ''A'' (Some (fl (1234 / 10000))) (Num (3 / 2)) None,
        detail_row ''B'' None NaN (Some (fl (- 5 / 1000)))]"
  by (simp add: detail_rows_def detail_df_def detail_row_def example_names_def matches_def
      ascii_def)

lemma detail_texts:
  "percent_text (Some (fl (1234 / 10000))) = ''12.34%''"
  "percent_text (Some (fl (- 5 / 1000))) = ''-0.50%''"
  "percent_text None = ''N/A''"
  "ratio_text (Num (3 / 2)) = Inr ''1.500''"
  "ratio_text NaN = Inr ''N/A''"
  by code_simp+

lemma detail_display:
  "display_all (detail_rows detail_df (ascii ''P1'') example_names)
     = Inr [\<lparr>shown_entity_name = ascii ''A'', shown_period = Str (ascii ''P1''),
             shown_net_profit_margin = ''12.34%'', shown_asset_turnover = ''1.500'',
             shown_return_on_assets = ''N/A''\<rparr>,
            \<lparr>shown_entity_name = ascii ''B'', shown_period = Str (ascii ''P1''),
             shown_net_profit_margin = ''N/A'', shown_asset_turnover = ''N/A'',
             shown_return_on_assets = ''-0.50%''\<rparr>]"
  unfolding detail_matching
  by (simp only: display_all.simps display_of_def detail_row_fields detail_texts sum.case)

lemma detail_data:
  "display_data detail_df (ascii ''P1'') example_names
     = (case display_all (detail_rows detail_df (ascii ''P1'') example_names) of
          Inl e \<Rightarrow> Inl e | Inr ds \<Rightarrow> Inr (Some ds))"
proof -
  have "detail_rows detail_df (ascii ''P1'') example_names \<noteq> []"
    by (simp add: detail_matching)
  then show ?thesis
    by (simp add: display_data_def detail_rows_def Let_def detail_df_def all_columns_def)
qed

theorem detail_table_format_witness:
  "display_data detail_df (ascii ''P1'') example_names
     = Inr (Some [\<lparr>shown_entity_name = ascii ''A'', shown_period = Str (ascii ''P1''),
                   shown_net_profit_margin = ''12.34%'', shown_asset_turnover = ''1.500'',
                   shown_return_on_assets = ''N/A''\<rparr>,
                  \<lparr>shown_entity_name = ascii ''B'', shown_period = Str (ascii ''P1''),
                   shown_net_profit_margin = ''N/A'', shown_asset_turnover = ''N/A'',
                   shown_return_on_assets = ''-0.50%''\<rparr>])
   \<and> net_profit_margin (detail_rows detail_df (ascii ''P1'') example_names ! 0)
       = Some (fl (1234 / 10000))
   \<and> format_fixed 2 (fl (fl (1234 / 10000) * 100)) @ ''%'' = ''12.34%''
   \<and> length (decimals (format_fixed 2 (fl (fl (1234 / 10000) * 100)))) = 2
   \<and> all_digits (decimals (format_fixed 2 (fl (fl (1234 / 10000) * 100))))"
proof -
  let ?ds = "[\<lparr>shown_entity_name = ascii ''A'', shown_period = Str (ascii ''P1''),
               shown_net_profit_margin = ''12.34%'', shown_asset_turnover = ''1.500'',
               shown_return_on_assets = ''N/A''\<rparr>,
              \<lparr>shown_entity_name = ascii ''B'', shown_period = Str (ascii ''P1''),
               shown_net_profit_margin = ''N/A'', shown_asset_turnover = ''N/A'',
               shown_return_on_assets = ''-0.50%''\<rparr>]"
  have data: "display_data detail_df (ascii ''P1'') example_names = Inr (Some ?ds)"
    by (simp only: detail_data detail_display sum.case)
  have i: "0 < length ?ds"
    by simp
  have x: "net_profit_margin (detail_rows detail_df (ascii ''P1'') example_names ! 0)
      = Some (fl (1234 / 10000))"
    unfolding detail_matching by (simp only: nth_Cons_0 detail_row_fields)
  from detail_table_format [OF data i] x
  have shape: "shown_net_profit_margin (?ds ! 0) = format_fixed 2 (fl (fl (1234 / 10000) * 100)) @ ''%''
      \<and> length (decimals (format_fixed 2 (fl (fl (1234 / 10000) * 100)))) = 2
      \<and> all_digits (decimals (format_fixed 2 (fl (fl (1234 / 10000) * 100))))"
    by blast
  then have shown: "format_fixed 2 (fl (fl (1234 / 10000) * 100)) @ ''%'' = ''12.34%''"
    by simp
  from data x shape shown show ?thesis
    by (intro conjI) blast+
qed

end
